theory Spec2Isabelle
  imports Main "HOL-Library.Sublist"
begin

section \<open>Strings\<close>

text \<open>
  A JavaScript string is modelled as a \<^typ>\<open>string\<close>: each \<^typ>\<open>char\<close> is one code unit in
  the range 0..255 (ASCII and Latin-1). The string methods the program calls are written
  out on that range; a code unit above 255 has no counterpart in the model.
\<close>

definition isWhiteSpace :: "char \<Rightarrow> bool" where
  \<comment> \<open>the white space and line terminators that \<open>String.prototype.trim\<close> removes:
      TAB, LF, VT, FF, CR, SP, NBSP\<close>
  "isWhiteSpace c = (c \<in> set [CHR 0x09, CHR 0x0A, CHR 0x0B, CHR 0x0C, CHR 0x0D, CHR 0x20, CHR 0xA0])"

definition trim :: "string \<Rightarrow> string" where
  "trim s = rev (dropWhile isWhiteSpace (rev (dropWhile isWhiteSpace s)))"

definition toLower :: "char \<Rightarrow> char" where
  \<comment> \<open>A..Z and the Latin-1 capitals (all of 0xC0..0xDE but the multiplication sign)\<close>
  "toLower c = (let n = (of_char c :: nat) in
     if (65 \<le> n \<and> n \<le> 90) \<or> (192 \<le> n \<and> n \<le> 222 \<and> n \<noteq> 215)
     then char_of (n + 32) else c)"

definition toLowerCase :: "string \<Rightarrow> string" where
  "toLowerCase s = map toLower s"

definition startsWith :: "string \<Rightarrow> string \<Rightarrow> bool" where
  "startsWith s p = prefix p s"

definition str_includes :: "string \<Rightarrow> string \<Rightarrow> bool" where
  \<comment> \<open>\<open>s.includes(p)\<close>: \<open>p\<close> occurs in \<open>s\<close> as a contiguous run\<close>
  "str_includes s p = sublist p s"

fun split_acc :: "char \<Rightarrow> string \<Rightarrow> string \<Rightarrow> string list" where
  "split_acc sep acc [] = [rev acc]"
| "split_acc sep acc (c # cs) =
     (if c = sep then rev acc # split_acc sep [] cs else split_acc sep (c # acc) cs)"

definition split :: "string \<Rightarrow> char \<Rightarrow> string list" where
  \<comment> \<open>\<open>s.split(sep)\<close> for a one-character separator; \<open>"".split("/")\<close> is \<open>[""]\<close>\<close>
  "split s sep = split_acc sep [] s"

definition isDigit :: "char \<Rightarrow> bool" where
  \<comment> \<open>the class \<open>\\d\<close> of a regular expression without the unicode flag\<close>
  "isDigit c = (c \<in> set ''0123456789'')"


section \<open>Exceptions and the platform\<close>

text \<open>
  A call that can throw returns \<open>exn + 'a\<close>, with \<open>Inl\<close> the exception.
  A \<open>try { ... } catch { ... }\<close> is the case distinction on that result.
\<close>

datatype exn = Error string | TypeError string | URIError string | SystemError string

record url =
  hostname :: string
  pathname :: string
  search :: string
  hash :: string

record dirent =
  dirent_name :: string
  dirent_isDirectory :: bool

datatype stats = RegularFile | Directory | OtherKind

definition isFile :: "stats \<Rightarrow> bool" where
  \<comment> \<open>\<open>stats.isFile()\<close>\<close>
  "isFile st = (st = RegularFile)"

record spawn_result =
  stdout :: "string option"
  stderr :: "string option"

type_synonym env = "string \<rightharpoonup> string"

text \<open>
  The functions of Node.js that the program imports (\<open>node:url\<close>, \<open>node:path\<close>,
  \<open>node:os\<close>, \<open>node:fs/promises\<close>, \<open>node:child_process\<close>) and the global
  \<open>decodeURIComponent\<close> are not code of the repository. They are taken as a parameter:
  every theorem below that is stated for a platform \<open>pf\<close> holds whatever these
  functions return. \<open>Inl\<close> is a thrown exception or a rejected promise; the \<open>null\<close>
  of \<open>stdout\<close> and \<open>stderr\<close> is \<open>None\<close>.
\<close>

record platform =
  process_platform :: string
  URL_new :: "string \<Rightarrow> exn + url"
  decodeURIComponent :: "string \<Rightarrow> exn + string"
  spawnSync :: "string \<Rightarrow> string list \<Rightarrow> env \<Rightarrow> exn + spawn_result"
  homedir :: string
  join :: "string list \<Rightarrow> string"
  dirname :: "string \<Rightarrow> string"
  readdir :: "string \<Rightarrow> exn + dirent list"
  stat :: "string \<Rightarrow> exn + stats"


section \<open>The result normalizer (detectors.ts)\<close>

definition normalizeFileManagerResult :: "platform \<Rightarrow> string \<Rightarrow> exn + string" where
  "normalizeFileManagerResult pf result =
     (let trimmed = trim result in
      if trimmed = [] \<or> trimmed = ''missing value'' then Inr []
      else if startsWith trimmed ''file://'' then
        (case (case URL_new pf trimmed of
                 Inl e \<Rightarrow> Inl e
               | Inr u \<Rightarrow> decodeURIComponent pf (pathname u)) of
           Inl e \<Rightarrow> Inr trimmed
         | Inr p \<Rightarrow> Inr p)
      else Inr trimmed)"

definition isProbablyUrlPath :: "string \<Rightarrow> bool" where
  "isProbablyUrlPath v =
     (let lower = toLowerCase v in
      startsWith lower ''http://'' \<or> startsWith lower ''https://''
      \<or> str_includes lower ''http:'' \<or> str_includes lower ''https:'')"


definition normalize_twice :: "platform \<Rightarrow> string \<Rightarrow> exn + string" where
  \<comment> \<open>the expression \<open>normalize(normalize(x))\<close> of the idempotence property\<close>
  "normalize_twice pf x =
     (case normalizeFileManagerResult pf x of
        Inl e \<Rightarrow> Inl e
      | Inr y \<Rightarrow> normalizeFileManagerResult pf y)"


section \<open>The cloud path mapper (detectors.ts)\<close>

definition getOneDriveRoots :: "platform \<Rightarrow> string list" where
  "getOneDriveRoots pf =
     (let cloudStoragePath = join pf [homedir pf, ''Library'', ''CloudStorage''] in
      case readdir pf cloudStoragePath of
        Inl e \<Rightarrow> []
      | Inr entries \<Rightarrow>
          map (\<lambda>entry. join pf [cloudStoragePath, dirent_name entry])
            (filter (\<lambda>entry. dirent_isDirectory entry \<and> startsWith (dirent_name entry) ''OneDrive'')
               entries))"

primrec decodeLoop :: "platform \<Rightarrow> nat \<Rightarrow> string \<Rightarrow> string" where
  \<comment> \<open>the \<open>for\<close> loop of \<open>decodeSegment\<close>, with the number of rounds that are left\<close>
  "decodeLoop pf 0 decoded = decoded"
| "decodeLoop pf (Suc k) decoded =
     (case decodeURIComponent pf decoded of
        Inl e \<Rightarrow> decoded
      | Inr next \<Rightarrow> if next = decoded then decoded else decodeLoop pf k next)"

definition decodeSegment :: "platform \<Rightarrow> string \<Rightarrow> string" where
  "decodeSegment pf v =
     (let decoded = map (\<lambda>c. if c = CHR ''+'' then CHR '' '' else c) v in
      decodeLoop pf 2 decoded)"

fun findIndex :: "('a \<Rightarrow> bool) \<Rightarrow> 'a list \<Rightarrow> int" where
  \<comment> \<open>\<open>Array.prototype.findIndex\<close>: the first index whose element passes, or -1\<close>
  "findIndex P [] = - 1"
| "findIndex P (x # xs) =
     (if P x then 0 else (let i = findIndex P xs in if i = - 1 then - 1 else i + 1))"

definition dateAt :: "string \<Rightarrow> bool" where
  \<comment> \<open>\<open>/\\d{4}\\.\\d{2}\\.\\d{2}/\<close> matches at the start of the string\<close>
  "dateAt s =
     (10 \<le> length s
      \<and> list_all isDigit (take 4 s) \<and> s ! 4 = CHR ''.''
      \<and> list_all isDigit (take 2 (drop 5 s)) \<and> s ! 7 = CHR ''.''
      \<and> list_all isDigit (take 2 (drop 8 s)))"

definition digitAt :: "string \<Rightarrow> bool" where
  \<comment> \<open>\<open>/\\d/\<close> matches at the start of the string\<close>
  "digitAt s = (case s of [] \<Rightarrow> False | c # cs \<Rightarrow> isDigit c)"

fun match_index :: "(string \<Rightarrow> bool) \<Rightarrow> string \<Rightarrow> nat option" where
  \<comment> \<open>\<open>s.match(re)\<close> for a pattern that needs at least one character: \<open>None\<close> is
      \<open>null\<close>, \<open>Some i\<close> a match whose \<open>index\<close> is \<open>i\<close>, the leftmost position
      at which the pattern matches\<close>
  "match_index at [] = None"
| "match_index at (c # cs) =
     (if at (c # cs) then Some 0 else map_option Suc (match_index at cs))"

definition splitVariant :: "string list \<Rightarrow> string \<Rightarrow> nat \<Rightarrow> string list list" where
  \<comment> \<open>the body that both \<open>if\<close> blocks share: the variants to push for a match at \<open>index\<close>\<close>
  "splitVariant relativeSegments lastSegment index =
     (let folderPart = trim (take index lastSegment);
          filePart = trim (drop index lastSegment)
      in if folderPart \<noteq> [] \<and> filePart \<noteq> []
         then [butlast relativeSegments @ [folderPart, filePart]]
         else [])"

definition relativeVariants :: "string list \<Rightarrow> string list list" where
  "relativeVariants relativeSegments =
     (case (if relativeSegments = [] then None else Some (last relativeSegments)) of
        None \<Rightarrow> [relativeSegments]
      | Some lastSegment \<Rightarrow>
          if lastSegment = [] then [relativeSegments]
          else
            (let dateMatch = match_index dateAt lastSegment in
             [relativeSegments]
             @ (case dateMatch of
                  Some index \<Rightarrow>
                    if index \<noteq> 0 \<and> 0 < index
                    then splitVariant relativeSegments lastSegment index else []
                | None \<Rightarrow> [])
             @ (if dateMatch = None then
                  (case match_index digitAt lastSegment of
                     Some index \<Rightarrow>
                       if index \<noteq> 0 \<and> 0 < index
                       then splitVariant relativeSegments lastSegment index else []
                   | None \<Rightarrow> [])
                else [])))"

definition urlSegments :: "platform \<Rightarrow> url \<Rightarrow> string list" where
  \<comment> \<open>the constant \<open>segments\<close>\<close>
  "urlSegments pf parsed =
     map (\<lambda>part. decodeSegment pf part)
       (filter (\<lambda>part. part \<noteq> []) (split (pathname parsed) (CHR ''/'')))"

definition relativeSegmentsOf :: "string list \<Rightarrow> int \<Rightarrow> string list" where
  \<comment> \<open>the variable \<open>relativeSegments\<close>, from \<open>segments\<close> and \<open>docsIndex\<close>\<close>
  "relativeSegmentsOf segments docsIndex =
     (let relativeSegments = drop (nat (docsIndex + 1)) segments in
      case relativeSegments of
        [] \<Rightarrow> relativeSegments
      | first # rest \<Rightarrow> if toLowerCase first = ''documents'' then rest else relativeSegments)"

fun tryCandidates :: "platform \<Rightarrow> string list \<Rightarrow> string option" where
  \<comment> \<open>\<open>for (const candidate of candidates)\<close>\<close>
  "tryCandidates pf [] = None"
| "tryCandidates pf (candidate # candidates) =
     (case stat pf candidate of
        Inl e \<Rightarrow> tryCandidates pf candidates
      | Inr st \<Rightarrow> if isFile st then Some candidate else tryCandidates pf candidates)"

fun tryVariants :: "platform \<Rightarrow> string \<Rightarrow> string list list \<Rightarrow> string option" where
  \<comment> \<open>\<open>for (const variant of relativeVariants)\<close>\<close>
  "tryVariants pf root [] = None"
| "tryVariants pf root (variant # variants) =
     (let candidates = [join pf (root # ''Documents'' # variant), join pf (root # variant)] in
      case tryCandidates pf candidates of
        Some candidate \<Rightarrow> Some candidate
      | None \<Rightarrow> tryVariants pf root variants)"

fun tryRoots :: "platform \<Rightarrow> string list \<Rightarrow> string list list \<Rightarrow> string option" where
  \<comment> \<open>\<open>for (const root of roots)\<close>\<close>
  "tryRoots pf [] variants = None"
| "tryRoots pf (root # roots) variants =
     (case tryVariants pf root variants of
        Some candidate \<Rightarrow> Some candidate
      | None \<Rightarrow> tryRoots pf roots variants)"

definition mapSharePointUrlToLocalPath :: "platform \<Rightarrow> string \<Rightarrow> exn + string option" where
  \<comment> \<open>\<open>Inr None\<close> is the returned \<open>null\<close>\<close>
  "mapSharePointUrlToLocalPath pf urlValue =
     (case URL_new pf urlValue of
        Inl e \<Rightarrow> Inr None
      | Inr parsed \<Rightarrow>
          if \<not> str_includes (hostname parsed) ''sharepoint.com'' then Inr None
          else
            (let segments = urlSegments pf parsed;
                 docsIndex = findIndex (\<lambda>segment. toLowerCase segment = ''documents'') segments
             in if docsIndex = - 1 then Inr None
                else
                  (let relativeSegments = relativeSegmentsOf segments docsIndex;
                       variants = relativeVariants relativeSegments;
                       roots = getOneDriveRoots pf
                   in Inr (tryRoots pf roots variants))))"


section \<open>The automation executor (utils.ts)\<close>

definition String_of :: "string option \<Rightarrow> string" where
  \<comment> \<open>the conversion to a string that an assignment to a property of \<open>process.env\<close>
      applies; \<open>None\<close> is \<open>undefined\<close>\<close>
  "String_of v = (case v of None \<Rightarrow> ''undefined'' | Some s \<Rightarrow> s)"

definition runAppleScript :: "platform \<Rightarrow> env \<Rightarrow> string \<Rightarrow> (exn + string) \<times> env" where
  \<comment> \<open>takes \<open>process.env\<close> and returns it as the call leaves it; when \<open>spawnSync\<close>
      itself throws, the assignment that restores \<open>LC_ALL\<close> is not reached\<close>
  "runAppleScript pf penv script =
     (if process_platform pf \<noteq> ''darwin'' then (Inl (Error ''macOS only''), penv)
      else
        (let locale = penv ''LC_ALL'';
             penv1 = penv(''LC_ALL'' := None)
         in case spawnSync pf ''osascript'' [''-e'', script] penv1 of
              Inl e \<Rightarrow> (Inl e, penv1)
            | Inr r \<Rightarrow>
                (let penv2 = penv1(''LC_ALL'' \<mapsto> String_of locale) in
                 case stderr r of
                   Some err \<Rightarrow>
                     if length err \<noteq> 0 then (Inl (Error err), penv2)
                     else (case stdout r of
                             None \<Rightarrow> (Inl (TypeError ''stdout is null''), penv2)
                           | Some out \<Rightarrow> (Inr out, penv2))
                 | None \<Rightarrow>
                     (case stdout r of
                        None \<Rightarrow> (Inl (TypeError ''stdout is null''), penv2)
                      | Some out \<Rightarrow> (Inr out, penv2)))))"


section \<open>The script registry (detectors.ts)\<close>

text \<open>
  An application identity is the string of its name: the types \<open>FileManager\<close>,
  \<open>Terminal\<close> and \<open>DocumentApp\<close> are unions of string literals, listed by the constants
  below. Each template literal of the two \<open>switch\<close> statements is a definition of its
  own, line by line; a \<open>switch\<close> that matches no \<open>case\<close> yields \<open>undefined\<close>, here
  \<open>None\<close>.
\<close>

definition FILE_MANAGERS :: "string list" where
  "FILE_MANAGERS = [''Finder'', ''QSpace Pro'', ''Bloom'']"

definition TERMINALS :: "string list" where
  "TERMINALS = [''Terminal'', ''iTerm'', ''Warp'', ''WezTerm'', ''Ghostty'', ''kitty'']"

definition DOCUMENT_APPS :: "string list" where
  "DOCUMENT_APPS =
     [''Visual Studio Code'', ''Visual Studio Code - Insiders'', ''Xcode'', ''Xcode-beta'',
      ''IntelliJ IDEA'', ''PyCharm'', ''WebStorm'', ''PhpStorm'', ''RubyMine'', ''GoLand'',
      ''CLion'', ''DataGrip'', ''Rider'', ''AppCode'', ''Sublime Text'', ''BBEdit'',
      ''TextEdit'', ''CotEditor'', ''Nova'', ''Obsidian'', ''Microsoft Word'',
      ''Microsoft Excel'', ''Microsoft PowerPoint'', ''Preview'', ''Skim'', ''PDF Expert'',
      ''Adobe Acrobat'', ''Adobe Acrobat Reader DC'']"

definition isFileManager :: "string \<Rightarrow> bool" where
  "isFileManager val = (val \<in> set FILE_MANAGERS)"

definition isTerminal :: "string \<Rightarrow> bool" where
  "isTerminal val = (val \<in> set TERMINALS)"

definition isDocumentApp :: "string \<Rightarrow> bool" where
  "isDocumentApp val = (val \<in> set DOCUMENT_APPS)"

definition script_Visual_Studio_Code :: "string \<Rightarrow> string \<Rightarrow> string" where
  \<open>script_Visual_Studio_Code app processName = 
     ''\<newline>'' @
     ''        tell application "System Events"\<newline>'' @
     ''          if not (exists process "'' @ processName @ ''") then error "'' @ app @ '' is not running"\<newline>'' @
     ''          tell process "'' @ processName @ ''"\<newline>'' @
     ''            if (count of windows) = 0 then error "No window open"\<newline>'' @
     ''            try\<newline>'' @
     ''              set docPath to value of attribute "AXDocument" of front window\<newline>'' @
     ''              if docPath is missing value then error "No active document"\<newline>'' @
     ''              return docPath\<newline>'' @
     ''            on error\<newline>'' @
     ''              error "Could not read active document"\<newline>'' @
     ''            end try\<newline>'' @
     ''          end tell\<newline>'' @
     ''        end tell\<newline>'' @
     ''      ''\<close>

definition script_Xcode :: "string \<Rightarrow> string" where
  \<open>script_Xcode app = 
     ''\<newline>'' @
     ''        if application "'' @ app @ ''" is not running then\<newline>'' @
     ''            error "'' @ app @ '' is not running"\<newline>'' @
     ''        end if\<newline>'' @
     ''\<newline>'' @
     ''        tell application "'' @ app @ ''"\<newline>'' @
     ''          if (count of windows) = 0 then error "No window open"\<newline>'' @
     ''          set activeDoc to active workspace document\<newline>'' @
     ''          if activeDoc is missing value then error "No active document"\<newline>'' @
     ''          set docPath to path of activeDoc\<newline>'' @
     ''          return POSIX path of docPath\<newline>'' @
     ''        end tell\<newline>'' @
     ''      ''\<close>

definition script_IntelliJ_IDEA :: "string \<Rightarrow> string" where
  \<open>script_IntelliJ_IDEA app = 
     ''\<newline>'' @
     ''        if application "'' @ app @ ''" is not running then\<newline>'' @
     ''            error "'' @ app @ '' is not running"\<newline>'' @
     ''        end if\<newline>'' @
     ''\<newline>'' @
     ''        tell application "System Events"\<newline>'' @
     ''          tell process "'' @ app @ ''"\<newline>'' @
     ''            if (count of windows) = 0 then error "No window open"\<newline>'' @
     ''            set winTitle to name of window 1\<newline>'' @
     ''          end tell\<newline>'' @
     ''        end tell\<newline>'' @
     ''\<newline>'' @
     ''        set pathPart to winTitle\<newline>'' @
     ''        if winTitle contains " - " then\<newline>'' @
     ''          set AppleScript's text item delimiters to " - "\<newline>'' @
     ''          set pathPart to text item 2 of (text items of winTitle)\<newline>'' @
     ''        end if\<newline>'' @
     ''\<newline>'' @
     ''        set AppleScript's text item delimiters to ""\<newline>'' @
     ''        set pathPart to do shell script "echo " & quoted form of pathPart & " | xargs"\<newline>'' @
     ''\<newline>'' @
     ''        if pathPart contains "[" then\<newline>'' @
     ''          set AppleScript's text item delimiters to "["\<newline>'' @
     ''          set pathPart to text item 1 of (text items of pathPart)\<newline>'' @
     ''          set AppleScript's text item delimiters to ""\<newline>'' @
     ''          set pathPart to do shell script "echo " & quoted form of pathPart & " | xargs"\<newline>'' @
     ''        end if\<newline>'' @
     ''\<newline>'' @
     ''        return pathPart\<newline>'' @
     ''      ''\<close>

definition script_Sublime_Text :: "string" where
  \<open>script_Sublime_Text = 
     ''\<newline>'' @
     ''        if application "Sublime Text" is not running then\<newline>'' @
     ''            error "Sublime Text is not running"\<newline>'' @
     ''        end if\<newline>'' @
     ''\<newline>'' @
     ''        tell application "Sublime Text"\<newline>'' @
     ''          if (count of windows) = 0 then error "No window open"\<newline>'' @
     ''          tell window 1\<newline>'' @
     ''            if (count of views) = 0 then error "No active document"\<newline>'' @
     ''            set activeView to view 1\<newline>'' @
     ''            set docPath to file of activeView\<newline>'' @
     ''            if docPath is missing value then error "No active document"\<newline>'' @
     ''            return docPath\<newline>'' @
     ''          end tell\<newline>'' @
     ''        end tell\<newline>'' @
     ''      ''\<close>

definition script_BBEdit :: "string" where
  \<open>script_BBEdit = 
     ''\<newline>'' @
     ''        if application "BBEdit" is not running then\<newline>'' @
     ''            error "BBEdit is not running"\<newline>'' @
     ''        end if\<newline>'' @
     ''\<newline>'' @
     ''        tell application "BBEdit"\<newline>'' @
     ''          if (count of windows) = 0 then error "No window open"\<newline>'' @
     ''          set activeDoc to document of window 1\<newline>'' @
     ''          if activeDoc is missing value then error "No active document"\<newline>'' @
     ''          if exists file of activeDoc then\<newline>'' @
     ''            set docPath to file of activeDoc\<newline>'' @
     ''            return POSIX path of docPath\<newline>'' @
     ''          end if\<newline>'' @
     ''          error "No active document"\<newline>'' @
     ''        end tell\<newline>'' @
     ''      ''\<close>

definition script_TextEdit :: "string" where
  \<open>script_TextEdit = 
     ''\<newline>'' @
     ''        if application "TextEdit" is not running then\<newline>'' @
     ''            error "TextEdit is not running"\<newline>'' @
     ''        end if\<newline>'' @
     ''\<newline>'' @
     ''        tell application "TextEdit"\<newline>'' @
     ''          if (count of windows) = 0 then error "No window open"\<newline>'' @
     ''          set activeDoc to document of window 1\<newline>'' @
     ''          if activeDoc is missing value then error "No active document"\<newline>'' @
     ''          set docPath to path of activeDoc\<newline>'' @
     ''          if docPath is missing value then error "No active document"\<newline>'' @
     ''          return POSIX path of docPath\<newline>'' @
     ''        end tell\<newline>'' @
     ''      ''\<close>

definition script_CotEditor :: "string" where
  \<open>script_CotEditor = 
     ''\<newline>'' @
     ''        if application "CotEditor" is not running then\<newline>'' @
     ''            error "CotEditor is not running"\<newline>'' @
     ''        end if\<newline>'' @
     ''\<newline>'' @
     ''        tell application "CotEditor"\<newline>'' @
     ''          if (count of windows) = 0 then error "No window open"\<newline>'' @
     ''          set activeDoc to front document\<newline>'' @
     ''          if activeDoc is missing value then error "No active document"\<newline>'' @
     ''          set docPath to path of activeDoc\<newline>'' @
     ''          if docPath is missing value then error "No active document"\<newline>'' @
     ''          return POSIX path of docPath\<newline>'' @
     ''        end tell\<newline>'' @
     ''      ''\<close>

definition script_Nova :: "string" where
  \<open>script_Nova = 
     ''\<newline>'' @
     ''        if application "Nova" is not running then\<newline>'' @
     ''            error "Nova is not running"\<newline>'' @
     ''        end if\<newline>'' @
     ''\<newline>'' @
     ''        tell application "Nova"\<newline>'' @
     ''          if (count of windows) = 0 then error "No window open"\<newline>'' @
     ''          tell window 1\<newline>'' @
     ''            set activeDoc to active document\<newline>'' @
     ''            if activeDoc is missing value then error "No active document"\<newline>'' @
     ''            set docPath to path of activeDoc\<newline>'' @
     ''            return POSIX path of docPath\<newline>'' @
     ''          end tell\<newline>'' @
     ''        end tell\<newline>'' @
     ''      ''\<close>

definition script_Obsidian :: "string" where
  \<open>script_Obsidian = 
     ''\<newline>'' @
     ''        if application "Obsidian" is not running then\<newline>'' @
     ''            error "Obsidian is not running"\<newline>'' @
     ''        end if\<newline>'' @
     ''\<newline>'' @
     ''        tell application "System Events"\<newline>'' @
     ''          tell process "Obsidian"\<newline>'' @
     ''            if (count of windows) = 0 then error "No window open"\<newline>'' @
     ''            set docPath to value of attribute "AXDocument" of window 1\<newline>'' @
     ''            if docPath is missing value then error "No active document"\<newline>'' @
     ''            return docPath\<newline>'' @
     ''          end tell\<newline>'' @
     ''        end tell\<newline>'' @
     ''      ''\<close>

definition script_Microsoft_Word :: "string" where
  \<open>script_Microsoft_Word = 
     ''\<newline>'' @
     ''        if application "Microsoft Word" is not running then\<newline>'' @
     ''            error "Microsoft Word is not running"\<newline>'' @
     ''        end if\<newline>'' @
     ''\<newline>'' @
     ''        tell application "Microsoft Word"\<newline>'' @
     ''          if not (exists active document) then error "No active document"\<newline>'' @
     ''          if (path of active document) is missing value then error "Document not saved"\<newline>'' @
     ''          set docPath to (path of active document as text) & (name of active document)\<newline>'' @
     ''          try\<newline>'' @
     ''            set docAlias to file docPath\<newline>'' @
     ''            return POSIX path of docAlias\<newline>'' @
     ''          on error\<newline>'' @
     ''            return docPath\<newline>'' @
     ''          end try\<newline>'' @
     ''        end tell\<newline>'' @
     ''      ''\<close>

definition script_Microsoft_Excel :: "string" where
  \<open>script_Microsoft_Excel = 
     ''\<newline>'' @
     ''        if application "Microsoft Excel" is not running then\<newline>'' @
     ''            error "Microsoft Excel is not running"\<newline>'' @
     ''        end if\<newline>'' @
     ''\<newline>'' @
     ''        tell application "Microsoft Excel"\<newline>'' @
     ''          if not (exists active workbook) then error "No active workbook"\<newline>'' @
     ''          if (path of active workbook) is "" then error "Workbook not saved"\<newline>'' @
     ''          set docPath to (path of active workbook) & (name of active workbook)\<newline>'' @
     ''          try\<newline>'' @
     ''            set docAlias to file docPath\<newline>'' @
     ''            return POSIX path of docAlias\<newline>'' @
     ''          on error\<newline>'' @
     ''            return docPath\<newline>'' @
     ''          end try\<newline>'' @
     ''        end tell\<newline>'' @
     ''      ''\<close>

definition script_Microsoft_PowerPoint :: "string" where
  \<open>script_Microsoft_PowerPoint = 
     ''\<newline>'' @
     ''        if application "Microsoft PowerPoint" is not running then\<newline>'' @
     ''            error "Microsoft PowerPoint is not running"\<newline>'' @
     ''        end if\<newline>'' @
     ''\<newline>'' @
     ''        tell application "Microsoft PowerPoint"\<newline>'' @
     ''          if not (exists active presentation) then error "No active presentation"\<newline>'' @
     ''          if (path of active presentation) is "" then error "Presentation not saved"\<newline>'' @
     ''          set docPath to (path of active presentation) & (name of active presentation)\<newline>'' @
     ''          try\<newline>'' @
     ''            set docAlias to file docPath\<newline>'' @
     ''            return POSIX path of docAlias\<newline>'' @
     ''          on error\<newline>'' @
     ''            return docPath\<newline>'' @
     ''          end try\<newline>'' @
     ''        end tell\<newline>'' @
     ''      ''\<close>

definition script_Preview :: "string" where
  \<open>script_Preview = 
     ''\<newline>'' @
     ''        if application "Preview" is not running then\<newline>'' @
     ''            error "Preview is not running"\<newline>'' @
     ''        end if\<newline>'' @
     ''\<newline>'' @
     ''        tell application "Preview"\<newline>'' @
     ''          if (count of documents) is 0 then error "No document open"\<newline>'' @
     ''          set docPath to path of front document\<newline>'' @
     ''          return POSIX path of docPath\<newline>'' @
     ''        end tell\<newline>'' @
     ''      ''\<close>

definition script_Skim :: "string" where
  \<open>script_Skim = 
     ''\<newline>'' @
     ''        if application "Skim" is not running then\<newline>'' @
     ''            error "Skim is not running"\<newline>'' @
     ''        end if\<newline>'' @
     ''\<newline>'' @
     ''        tell application "Skim"\<newline>'' @
     ''          if (count of windows) is 0 then error "No document open"\<newline>'' @
     ''          set activeDoc to document of window 1\<newline>'' @
     ''          if activeDoc is missing value then error "No document open"\<newline>'' @
     ''          set docPath to file of activeDoc\<newline>'' @
     ''          return POSIX path of docPath\<newline>'' @
     ''        end tell\<newline>'' @
     ''      ''\<close>

definition script_PDF_Expert :: "string" where
  \<open>script_PDF_Expert = 
     ''\<newline>'' @
     ''        if application "PDF Expert" is not running then\<newline>'' @
     ''            error "PDF Expert is not running"\<newline>'' @
     ''        end if\<newline>'' @
     ''\<newline>'' @
     ''        tell application "PDF Expert"\<newline>'' @
     ''          if (count of windows) = 0 then error "No document open"\<newline>'' @
     ''          tell window 1\<newline>'' @
     ''            set activeDoc to active document\<newline>'' @
     ''            if activeDoc is missing value then error "No document open"\<newline>'' @
     ''            set docPath to path of activeDoc\<newline>'' @
     ''            return POSIX path of docPath\<newline>'' @
     ''          end tell\<newline>'' @
     ''        end tell\<newline>'' @
     ''      ''\<close>

definition script_Adobe_Acrobat :: "string \<Rightarrow> string" where
  \<open>script_Adobe_Acrobat app = 
     ''\<newline>'' @
     ''        if application "'' @ app @ ''" is not running then\<newline>'' @
     ''            error "'' @ app @ '' is not running"\<newline>'' @
     ''        end if\<newline>'' @
     ''\<newline>'' @
     ''        tell application "'' @ app @ ''"\<newline>'' @
     ''          if not (exists active doc) then error "No document open"\<newline>'' @
     ''          set docPath to file alias of active doc\<newline>'' @
     ''          return POSIX path of docPath\<newline>'' @
     ''        end tell\<newline>'' @
     ''      ''\<close>

definition script_Finder :: "string" where
  \<open>script_Finder = 
     ''\<newline>'' @
     ''        if application "Finder" is not running then\<newline>'' @
     ''            error "Finder is not running"\<newline>'' @
     ''        end if\<newline>'' @
     ''\<newline>'' @
     ''        tell application "Finder"\<newline>'' @
     ''          if (count of Finder windows) = 0 then error "No Finder window open"\<newline>'' @
     ''          try\<newline>'' @
     ''            set pathList to POSIX path of (folder of the front window as alias)\<newline>'' @
     ''            return pathList\<newline>'' @
     ''          on error\<newline>'' @
     ''            error "Could not access Finder window path"\<newline>'' @
     ''          end try\<newline>'' @
     ''        end tell\<newline>'' @
     ''      ''\<close>

definition script_QSpace_Pro :: "string" where
  \<open>script_QSpace_Pro = 
     ''\<newline>'' @
     ''        if application "QSpace Pro" is not running then\<newline>'' @
     ''            error "QSpace Pro is not running"\<newline>'' @
     ''        end if\<newline>'' @
     ''\<newline>'' @
     ''        tell application "QSpace Pro"\<newline>'' @
     ''          if (count of windows) = 0 then error "No QSpace Pro window open"\<newline>'' @
     ''\<newline>'' @
     ''          try\<newline>'' @
     ''            set sel to selected items of front window\<newline>'' @
     ''            if (count of sel) > 0 then\<newline>'' @
     ''              set fileItem to item 1 of sel\<newline>'' @
     ''              try\<newline>'' @
     ''                return urlstr of fileItem\<newline>'' @
     ''              on error\<newline>'' @
     ''                return POSIX path of fileItem\<newline>'' @
     ''              end try\<newline>'' @
     ''            end if\<newline>'' @
     ''          end try\<newline>'' @
     ''\<newline>'' @
     ''          try\<newline>'' @
     ''            set sel to selection of front window\<newline>'' @
     ''            if (count of sel) > 0 then\<newline>'' @
     ''              set fileItem to item 1 of sel\<newline>'' @
     ''              try\<newline>'' @
     ''                return urlstr of fileItem\<newline>'' @
     ''              on error\<newline>'' @
     ''                return POSIX path of fileItem\<newline>'' @
     ''              end try\<newline>'' @
     ''            end if\<newline>'' @
     ''          end try\<newline>'' @
     ''\<newline>'' @
     ''          try\<newline>'' @
     ''            set paneRoot to root item of activated pane of front window\<newline>'' @
     ''            return urlstr of paneRoot\<newline>'' @
     ''          end try\<newline>'' @
     ''\<newline>'' @
     ''          try\<newline>'' @
     ''            set winRoot to root item of front window\<newline>'' @
     ''            return urlstr of winRoot\<newline>'' @
     ''          end try\<newline>'' @
     ''\<newline>'' @
     ''          return missing value\<newline>'' @
     ''        end tell\<newline>'' @
     ''      ''\<close>

definition script_Bloom :: "string" where
  \<open>script_Bloom = 
     ''\<newline>'' @
     ''        if application "Bloom" is not running then\<newline>'' @
     ''            error "Bloom is not running"\<newline>'' @
     ''        end if\<newline>'' @
     ''\<newline>'' @
     ''        tell application "Bloom"\<newline>'' @
     ''          try\<newline>'' @
     ''            set winSel to selection of front window\<newline>'' @
     ''            if (count of winSel) > 0 then\<newline>'' @
     ''              set item1 to item 1 of winSel\<newline>'' @
     ''              try\<newline>'' @
     ''                return POSIX path of item1\<newline>'' @
     ''              on error\<newline>'' @
     ''                return POSIX path of (item1 as alias)\<newline>'' @
     ''              end try\<newline>'' @
     ''            end if\<newline>'' @
     ''          on error\<newline>'' @
     ''            return rootURL of front window\<newline>'' @
     ''          end try\<newline>'' @
     ''        end tell\<newline>'' @
     ''      ''\<close>

definition buildDocumentPathScript :: "string \<Rightarrow> string option" where
  "buildDocumentPathScript app =
     (if app = ''Visual Studio Code'' \<or> app = ''Visual Studio Code - Insiders'' then
        (let processName =
               (if app = ''Visual Studio Code - Insiders'' then ''Code - Insiders'' else ''Code'')
         in Some (script_Visual_Studio_Code app processName))
      else if app = ''Xcode'' \<or> app = ''Xcode-beta'' then Some (script_Xcode app)
      else if app = ''IntelliJ IDEA'' \<or> app = ''PyCharm'' \<or> app = ''WebStorm''
           \<or> app = ''PhpStorm'' \<or> app = ''RubyMine'' \<or> app = ''GoLand'' \<or> app = ''CLion''
           \<or> app = ''DataGrip'' \<or> app = ''Rider'' \<or> app = ''AppCode''
        then Some (script_IntelliJ_IDEA app)
      else if app = ''Sublime Text'' then Some script_Sublime_Text
      else if app = ''BBEdit'' then Some script_BBEdit
      else if app = ''TextEdit'' then Some script_TextEdit
      else if app = ''CotEditor'' then Some script_CotEditor
      else if app = ''Nova'' then Some script_Nova
      else if app = ''Obsidian'' then Some script_Obsidian
      else if app = ''Microsoft Word'' then Some script_Microsoft_Word
      else if app = ''Microsoft Excel'' then Some script_Microsoft_Excel
      else if app = ''Microsoft PowerPoint'' then Some script_Microsoft_PowerPoint
      else if app = ''Preview'' then Some script_Preview
      else if app = ''Skim'' then Some script_Skim
      else if app = ''PDF Expert'' then Some script_PDF_Expert
      else if app = ''Adobe Acrobat'' \<or> app = ''Adobe Acrobat Reader DC''
        then Some (script_Adobe_Acrobat app)
      else None)"

definition buildFileManagerPathScript :: "string \<Rightarrow> string option" where
  "buildFileManagerPathScript fileManager =
     (if fileManager = ''Finder'' then Some script_Finder
      else if fileManager = ''QSpace Pro'' then Some script_QSpace_Pro
      else if fileManager = ''Bloom'' then Some script_Bloom
      else None)"


section \<open>The resolution orchestrator (detectors.ts)\<close>

text \<open>
  The parameter of \<open>getDocumentAppPath\<close> has the type \<open>DocumentApp\<close> and that of
  \<open>getFileManagerPath\<close> the type \<open>FileManager\<close>: a name outside the type is rejected
  without running anything.
\<close>

definition getDocumentAppPath :: "platform \<Rightarrow> env \<Rightarrow> string \<Rightarrow> (exn + string) \<times> env" where
  "getDocumentAppPath pf penv app =
     (case buildDocumentPathScript app of
        None \<Rightarrow> (Inl (TypeError ''not a DocumentApp''), penv)
      | Some script \<Rightarrow>
          (case runAppleScript pf penv script of
             (Inl e, penv') \<Rightarrow> (Inl e, penv')
           | (Inr result, penv') \<Rightarrow>
               (case normalizeFileManagerResult pf result of
                  Inl e \<Rightarrow> (Inl e, penv')
                | Inr normalized \<Rightarrow>
                    if normalized = [] then (Inl (Error (app @ '' returned an empty path'')), penv')
                    else (Inr normalized, penv'))))"

definition getFileManagerPath :: "platform \<Rightarrow> env \<Rightarrow> string \<Rightarrow> (exn + string) \<times> env" where
  "getFileManagerPath pf penv fileManager =
     (case buildFileManagerPathScript fileManager of
        None \<Rightarrow> (Inl (TypeError ''not a FileManager''), penv)
      | Some script \<Rightarrow>
          (case runAppleScript pf penv script of
             (Inl e, penv') \<Rightarrow> (Inl e, penv')
           | (Inr result, penv') \<Rightarrow>
               (case normalizeFileManagerResult pf result of
                  Inl e \<Rightarrow> (Inl e, penv')
                | Inr normalized \<Rightarrow>
                    if normalized = []
                    then (Inl (Error (fileManager @ '' returned an empty path'')), penv')
                    else (Inr normalized, penv'))))"

record resolved =
  documentPath :: string
  resolvedPath :: string

definition resolveDocumentAppPathForOpen ::
  "platform \<Rightarrow> env \<Rightarrow> string \<Rightarrow> (exn + resolved) \<times> env" where
  "resolveDocumentAppPathForOpen pf penv app =
     (case getDocumentAppPath pf penv app of
        (Inl e, penv') \<Rightarrow> (Inl e, penv')
      | (Inr docPath, penv') \<Rightarrow>
          if isProbablyUrlPath docPath then
            (case mapSharePointUrlToLocalPath pf docPath of
               Inl e \<Rightarrow> (Inl e, penv')
             | Inr mappedPath \<Rightarrow>
                 (Inr \<lparr>documentPath = docPath,
                       resolvedPath = (case mappedPath of None \<Rightarrow> [] | Some p \<Rightarrow> p)\<rparr>, penv'))
          else (Inr \<lparr>documentPath = docPath, resolvedPath = docPath\<rparr>, penv'))"

definition resolveOpenPath :: "platform \<Rightarrow> string \<Rightarrow> exn + string" where
  "resolveOpenPath pf pathValue =
     (if pathValue = [] then Inr []
      else
        (case stat pf pathValue of
           Inl e \<Rightarrow> Inr pathValue
         | Inr st \<Rightarrow> if isFile st then Inr (dirname pf pathValue) else Inr pathValue))"


section \<open>Terms of the specification\<close>

definition isRegularFile :: "platform \<Rightarrow> string \<Rightarrow> bool" where
  \<comment> \<open>the candidate exists and is a regular file; a failing check counts as absent\<close>
  "isRegularFile pf candidate =
     (case stat pf candidate of Inl e \<Rightarrow> False | Inr st \<Rightarrow> isFile st)"

definition candidatePaths :: "platform \<Rightarrow> string list \<Rightarrow> string list list \<Rightarrow> string list" where
  \<comment> \<open>roots outermost, variants innermost, and for each pair the path under
      \<open>Documents\<close> before the path under the root\<close>
  "candidatePaths pf roots variants =
     concat (map (\<lambda>root.
       concat (map (\<lambda>variant.
         [join pf (root # ''Documents'' # variant), join pf (root # variant)]) variants)) roots)"

definition matchesAt :: "(string \<Rightarrow> bool) \<Rightarrow> string \<Rightarrow> nat \<Rightarrow> bool" where
  \<comment> \<open>the pattern matches at position \<open>i\<close> of the string\<close>
  "matchesAt at s i = (i < length s \<and> at (drop i s))"


section \<open>A sample platform\<close>

text \<open>
  The closed examples below need concrete answers of the platform. \<open>sample_URL\<close> is
  the table of what \<open>new URL(s)\<close> yields in Node.js on the inputs the examples use; any
  other input counts as one the parser rejects, as it does \<open>not a url\<close> and
  \<open>file://a b/x\<close>. \<open>sample_decodeURIComponent\<close> decodes the escapes \<open>%00\<close> to
  \<open>%7F\<close> and rejects an escape that is cut short or not hexadecimal; the escapes from
  \<open>%80\<close> on, the bytes of a character outside ASCII, are not covered and rejected as
  well. \<open>sample_join\<close> and \<open>sample_dirname\<close> are \<open>path.join\<close> and \<open>path.dirname\<close>
  on paths that need no normalisation. The theorems stated for an arbitrary platform do
  not depend on any of this.
\<close>

definition parsed_url :: "string \<Rightarrow> string \<Rightarrow> string \<Rightarrow> string \<Rightarrow> exn + url" where
  "parsed_url h p q f = Inr \<lparr>hostname = h, pathname = p, search = q, hash = f\<rparr>"

definition sample_URL :: "string \<Rightarrow> exn + url" where
  "sample_URL s =
     (if s = ''file:///Users/a b/x.txt'' then parsed_url [] ''/Users/a%20b/x.txt'' [] []
      else if s = ''file:///a%20'' then parsed_url [] ''/a%20'' [] []
      else if s = ''file:///a%ZZ'' then parsed_url [] ''/a%ZZ'' [] []
      else if s = ''file://server/share/x.txt'' then parsed_url ''server'' ''/share/x.txt'' [] []
      else if s = ''file://server/share/x.txt?rev=2#top''
        then parsed_url ''server'' ''/share/x.txt'' ''?rev=2'' ''#top''
      else if s = ''file://server/a%ZZ?q=1#f'' then parsed_url ''server'' ''/a%ZZ'' ''?q=1'' ''#f''
      else if s = ''HTTP://x'' then parsed_url ''x'' ''/'' [] []
      else if s = ''https://contoso.sharepoint.com/sites/Team/Documents/Reports/Q1.docx''
        then parsed_url ''contoso.sharepoint.com'' ''/sites/Team/Documents/Reports/Q1.docx'' [] []
      else if s = ''https://contoso.sharepoint.com/sites/Team/Documents/Quarterly%20Report2024.03.15.docx''
        then parsed_url ''contoso.sharepoint.com''
               ''/sites/Team/Documents/Quarterly%20Report2024.03.15.docx'' [] []
      else if s = ''https://example.com/sites/Team/Documents/Reports/Q1.docx''
        then parsed_url ''example.com'' ''/sites/Team/Documents/Reports/Q1.docx'' [] []
      else if s = ''https://contoso.sharepoint.com/sites/Team/Reports/Q1.docx''
        then parsed_url ''contoso.sharepoint.com'' ''/sites/Team/Reports/Q1.docx'' [] []
      else Inl (TypeError ''Invalid URL''))"

definition hexval :: "char \<Rightarrow> nat option" where
  "hexval c = map_of (zip ''0123456789abcdefABCDEF''
     [0, 1, 2, 3, 4, 5, 6, 7, 8, 9, 10, 11, 12, 13, 14, 15, 10, 11, 12, 13, 14, 15]) c"

fun sample_decodeURIComponent :: "string \<Rightarrow> exn + string" where
  "sample_decodeURIComponent [] = Inr []"
| "sample_decodeURIComponent (c # cs) =
     (if c = CHR ''%'' then
        (case cs of
           h1 # h2 # rest \<Rightarrow>
             (case (hexval h1, hexval h2) of
                (Some a, Some b) \<Rightarrow>
                  if a < 8 then
                    (case sample_decodeURIComponent rest of
                       Inl e \<Rightarrow> Inl e
                     | Inr r \<Rightarrow> Inr (char_of (16 * a + b) # r))
                  else Inl (URIError ''URI malformed'')
              | _ \<Rightarrow> Inl (URIError ''URI malformed''))
         | _ \<Rightarrow> Inl (URIError ''URI malformed''))
      else
        (case sample_decodeURIComponent cs of
           Inl e \<Rightarrow> Inl e
         | Inr r \<Rightarrow> Inr (c # r)))"

fun sample_join :: "string list \<Rightarrow> string" where
  \<comment> \<open>\<open>path.join\<close> on parts that need no normalisation: the parts with a slash between\<close>
  "sample_join [] = ''.''"
| "sample_join [p] = p"
| "sample_join (p # q # ps) = p @ ''/'' @ sample_join (q # ps)"

definition sample_dirname :: "string \<Rightarrow> string" where
  \<comment> \<open>\<open>path.dirname\<close> on an absolute path of two components or more: the path without its
      last component\<close>
  "sample_dirname p = rev (tl (dropWhile (\<lambda>c. c \<noteq> CHR ''/'') (rev p)))"

definition sample_readdir :: "string \<Rightarrow> exn + dirent list" where
  "sample_readdir p =
     (if p = ''/Users/me/Library/CloudStorage'' then
        Inr [\<lparr>dirent_name = ''Dropbox'', dirent_isDirectory = True\<rparr>,
             \<lparr>dirent_name = ''OneDrive-Contoso'', dirent_isDirectory = True\<rparr>,
             \<lparr>dirent_name = ''OneDrive.log'', dirent_isDirectory = False\<rparr>]
      else Inl (SystemError ''ENOENT''))"

definition sample_stat :: "string \<Rightarrow> exn + stats" where
  "sample_stat p =
     (if p = ''/Users/me/Library/CloudStorage/OneDrive-Contoso/Quarterly Report/2024.03.15.docx''
        then Inr RegularFile
      else if p = ''/Users/me/Library/CloudStorage/OneDrive-Contoso/Quarterly Report''
        then Inr Directory
      else if p = ''/Users/me/Library/CloudStorage/OneDrive-Contoso''
        then Inr Directory
      else Inl (SystemError ''ENOENT''))"

definition sample_platform :: "string \<Rightarrow> platform" where
  \<comment> \<open>a machine on which every script prints \<open>out\<close> and nothing on the error stream\<close>
  "sample_platform out =
     \<lparr>process_platform = ''darwin'',
      URL_new = sample_URL,
      decodeURIComponent = sample_decodeURIComponent,
      spawnSync = (\<lambda>file args penv. Inr \<lparr>stdout = Some out, stderr = Some []\<rparr>),
      homedir = ''/Users/me'',
      join = sample_join,
      dirname = sample_dirname,
      readdir = sample_readdir,
      stat = sample_stat\<rparr>"


section \<open>Properties of the result normalizer\<close>

lemma dropWhile_eq_self: "xs = [] \<or> \<not> P (hd xs) \<Longrightarrow> dropWhile P xs = xs"
  by (cases xs) auto

lemma trim_trim: "trim (trim s) = trim s"
proof -
  define a where "a = dropWhile isWhiteSpace s"
  define b where "b = dropWhile isWhiteSpace (rev a)"
  have ts: "trim s = rev b" by (simp add: trim_def a_def b_def)
  show ?thesis
  proof (cases "b = []")
    case True
    then show ?thesis by (simp add: ts) (simp add: trim_def)
  next
    case False
    then have b_hd: "\<not> isWhiteSpace (hd b)" unfolding b_def using hd_dropWhile by blast
    from False have a_ne: "a \<noteq> []" unfolding b_def by auto
    then have a_hd: "\<not> isWhiteSpace (hd a)" unfolding a_def using hd_dropWhile by blast
    have "rev a = takeWhile isWhiteSpace (rev a) @ b" by (simp add: b_def)
    then have "last (rev a) = last b" using False by (metis last_appendR)
    then have "last b = hd a" using a_ne by (simp add: last_rev)
    then have "hd (rev b) = hd a" using False by (simp add: hd_rev)
    then have d1: "dropWhile isWhiteSpace (rev b) = rev b"
      using a_hd by (intro dropWhile_eq_self) simp
    have d2: "dropWhile isWhiteSpace b = b"
      using b_hd by (intro dropWhile_eq_self) simp
    show ?thesis by (simp add: ts) (simp add: trim_def d1 d2)
  qed
qed

lemma trim_Nil: "trim [] = []"
  by (simp add: trim_def)

lemma normalize_trim: "normalizeFileManagerResult pf (trim x) = normalizeFileManagerResult pf x"
  by (simp add: normalizeFileManagerResult_def trim_trim)

lemma normalize_fixed:
  assumes "trim y = y" "y \<noteq> ''missing value''" "\<not> startsWith y ''file://''"
  shows "normalizeFileManagerResult pf y = Inr y"
  using assms by (simp add: normalizeFileManagerResult_def Let_def)

text \<open>
  Claim C2. \<open>normalizeFileManagerResult\<close> trims its input first. A trimmed input
  that is empty or exactly \<open>missing value\<close> gives the empty string. A trimmed input
  that begins with \<open>file://\<close> gives the percent-decoded \<open>pathname\<close> of the parsed URL,
  and the trimmed input itself when the parser or the decoder throws. Every other input
  gives the trimmed input. The function throws on no input.
\<close>

theorem normalizeFileManagerResult_rules:
  "(trim raw = [] \<or> trim raw = ''missing value''
      \<longrightarrow> normalizeFileManagerResult pf raw = Inr [])
   \<and> (trim raw \<noteq> [] \<and> trim raw \<noteq> ''missing value'' \<and> startsWith (trim raw) ''file://''
      \<longrightarrow> (\<forall>u p. URL_new pf (trim raw) = Inr u \<and> decodeURIComponent pf (pathname u) = Inr p
                 \<longrightarrow> normalizeFileManagerResult pf raw = Inr p)
          \<and> (\<forall>e. URL_new pf (trim raw) = Inl e
                 \<longrightarrow> normalizeFileManagerResult pf raw = Inr (trim raw))
          \<and> (\<forall>u e. URL_new pf (trim raw) = Inr u \<and> decodeURIComponent pf (pathname u) = Inl e
                 \<longrightarrow> normalizeFileManagerResult pf raw = Inr (trim raw)))
   \<and> (trim raw \<noteq> [] \<and> trim raw \<noteq> ''missing value'' \<and> \<not> startsWith (trim raw) ''file://''
      \<longrightarrow> normalizeFileManagerResult pf raw = Inr (trim raw))
   \<and> (\<exists>p. normalizeFileManagerResult pf raw = Inr p)"
  by (simp add: normalizeFileManagerResult_def Let_def split: sum.splits)

theorem normalizeFileManagerResult_rules_witness:
  "normalizeFileManagerResult (sample_platform []) ''  missing value '' = Inr []
   \<and> normalizeFileManagerResult (sample_platform []) ''file:///Users/a b/x.txt'' = Inr ''/Users/a b/x.txt''
   \<and> normalizeFileManagerResult (sample_platform []) '' file:///a%ZZ'' = Inr ''file:///a%ZZ''
   \<and> normalizeFileManagerResult (sample_platform []) ''file://a b/x'' = Inr ''file://a b/x''
   \<and> normalizeFileManagerResult (sample_platform []) ''  /plain/path  '' = Inr ''/plain/path''"
proof -
  let ?pf = "sample_platform []"
  have t1: "trim ''  missing value '' = ''missing value''" by code_simp
  have t2: "trim ''file:///Users/a b/x.txt'' = ''file:///Users/a b/x.txt''" by code_simp
  have s2: "startsWith ''file:///Users/a b/x.txt'' ''file://''" by code_simp
  have u2: "URL_new ?pf ''file:///Users/a b/x.txt''
              = Inr \<lparr>hostname = [], pathname = ''/Users/a%20b/x.txt'', search = [], hash = []\<rparr>"
    by code_simp
  have d2: "decodeURIComponent ?pf ''/Users/a%20b/x.txt'' = Inr ''/Users/a b/x.txt''" by code_simp
  have t3: "trim '' file:///a%ZZ'' = ''file:///a%ZZ''" by code_simp
  have s3: "startsWith ''file:///a%ZZ'' ''file://''" by code_simp
  have u3: "URL_new ?pf ''file:///a%ZZ''
              = Inr \<lparr>hostname = [], pathname = ''/a%ZZ'', search = [], hash = []\<rparr>"
    by code_simp
  have d3: "decodeURIComponent ?pf ''/a%ZZ'' = Inl (URIError ''URI malformed'')" by code_simp
  have t4: "trim ''file://a b/x'' = ''file://a b/x''" by code_simp
  have s4: "startsWith ''file://a b/x'' ''file://''" by code_simp
  have u4: "URL_new ?pf ''file://a b/x'' = Inl (TypeError ''Invalid URL'')" by code_simp
  have t5: "trim ''  /plain/path  '' = ''/plain/path''" by code_simp
  have s5: "\<not> startsWith ''/plain/path'' ''file://''" by code_simp
  have r1: "normalizeFileManagerResult ?pf ''  missing value '' = Inr []"
    using normalizeFileManagerResult_rules [of "''  missing value ''" ?pf] t1 by simp
  have r2: "normalizeFileManagerResult ?pf ''file:///Users/a b/x.txt'' = Inr ''/Users/a b/x.txt''"
    using normalizeFileManagerResult_rules [of "''file:///Users/a b/x.txt''" ?pf] t2 s2 u2 d2
    by simp
  have r3: "normalizeFileManagerResult ?pf '' file:///a%ZZ'' = Inr ''file:///a%ZZ''"
    using normalizeFileManagerResult_rules [of "'' file:///a%ZZ''" ?pf] t3 s3 u3 d3
    by simp
  have r4: "normalizeFileManagerResult ?pf ''file://a b/x'' = Inr ''file://a b/x''"
    using normalizeFileManagerResult_rules [of "''file://a b/x''" ?pf] t4 s4 u4
    by simp
  have r5: "normalizeFileManagerResult ?pf ''  /plain/path  '' = Inr ''/plain/path''"
    using normalizeFileManagerResult_rules [of "''  /plain/path  ''" ?pf] t5 s5
    by simp
  show ?thesis using r1 r2 r3 r4 r5 by simp
qed

text \<open>
  Claim C9, as stated, fails: \<open>file:///a%20\<close> normalizes to \<open>/a\<close> followed by a
  space, the decoded path, and the second pass trims that space away.
\<close>

theorem normalize_not_idempotent:
  "normalize_twice (sample_platform []) ''file:///a%20''
     \<noteq> normalizeFileManagerResult (sample_platform []) ''file:///a%20''"
  by code_simp

text \<open>
  Claim C9, amended. A second pass changes nothing whenever the first result is empty, is
  the trimmed input itself (every input whose trimmed form does not begin with
  \<open>file://\<close>, and every \<open>file://\<close> input on which parsing or decoding fails), or is a
  plain path: unchanged by trimming, not \<open>missing value\<close> and not beginning with
  \<open>file://\<close>.
\<close>

theorem normalize_idempotent_plain:
  assumes "normalizeFileManagerResult pf x = Inr y"
    and "y = [] \<or> y = trim x
         \<or> (trim y = y \<and> y \<noteq> ''missing value'' \<and> \<not> startsWith y ''file://'')"
  shows "normalize_twice pf x = normalizeFileManagerResult pf x"
proof -
  have goal: "normalize_twice pf x = normalizeFileManagerResult pf y"
    using assms(1) by (simp add: normalize_twice_def)
  from assms(2) consider (empty) "y = []" | (same) "y \<noteq> []" "y = trim x"
    | (plain) "trim y = y" "y \<noteq> ''missing value''" "\<not> startsWith y ''file://''"
    by blast
  then have "normalizeFileManagerResult pf y = Inr y"
  proof cases
    case empty
    then show ?thesis by (simp add: normalizeFileManagerResult_def trim_Nil)
  next
    case same
    have "normalizeFileManagerResult pf (trim x) = normalizeFileManagerResult pf x"
      by (rule normalize_trim)
    then show ?thesis using assms(1) same(2) by simp
  next
    case plain
    then show ?thesis by (rule normalize_fixed)
  qed
  then show ?thesis using goal assms(1) by simp
qed

theorem normalize_idempotent_plain_witness:
  "normalizeFileManagerResult (sample_platform []) ''  /plain/path  '' = Inr ''/plain/path''
   \<and> ''/plain/path'' = trim ''  /plain/path  ''
   \<and> normalize_twice (sample_platform []) ''  /plain/path  ''
       = normalizeFileManagerResult (sample_platform []) ''  /plain/path  ''"
proof -
  have a: "normalizeFileManagerResult (sample_platform []) ''  /plain/path  '' = Inr ''/plain/path''"
    by code_simp
  have b: "''/plain/path'' = trim ''  /plain/path  ''" by code_simp
  have "normalize_twice (sample_platform []) ''  /plain/path  ''
       = normalizeFileManagerResult (sample_platform []) ''  /plain/path  ''"
    using normalize_idempotent_plain [OF a] b by blast
  then show ?thesis using a b by blast
qed


text \<open>
  Claim C10, as stated, fails: \<open>file://server/a%ZZ?q=1#f\<close> parses as a URL, its path
  \<open>/a%ZZ\<close> does not decode, and the fallback returns the whole trimmed input, with the
  host, the query and the fragment in it.
\<close>

theorem normalize_fallback_keeps_host:
  "URL_new (sample_platform []) ''file://server/a%ZZ?q=1#f''
     = Inr \<lparr>hostname = ''server'', pathname = ''/a%ZZ'', search = ''?q=1'', hash = ''#f''\<rparr>
   \<and> normalizeFileManagerResult (sample_platform []) ''file://server/a%ZZ?q=1#f''
     = Inr ''file://server/a%ZZ?q=1#f''
   \<and> str_includes ''file://server/a%ZZ?q=1#f'' ''server''
   \<and> str_includes ''file://server/a%ZZ?q=1#f'' ''?q=1''
   \<and> str_includes ''file://server/a%ZZ?q=1#f'' ''#f''"
  by code_simp

lemma file_prefix_nonempty:
  assumes "startsWith t ''file://''"
  shows "t \<noteq> [] \<and> t \<noteq> ''missing value''"
  using assms by (auto simp: startsWith_def)

text \<open>
  Claim C10, amended. For an input whose trimmed form begins with \<open>file://\<close>, parses
  as a URL and whose \<open>pathname\<close> decodes, the result is the decoded \<open>pathname\<close> and
  nothing else: it stays the same whatever the host, the query and the fragment of the
  parsed URL are.
\<close>

theorem normalize_only_pathname:
  assumes "startsWith (trim x) ''file://''"
    and "URL_new pf (trim x) = Inr u"
    and "decodeURIComponent pf (pathname u) = Inr p"
  shows "normalizeFileManagerResult pf x = Inr p
     \<and> (\<forall>h q f. normalizeFileManagerResult
           (pf\<lparr>URL_new := (URL_new pf)(trim x := Inr (u\<lparr>hostname := h, search := q, hash := f\<rparr>))\<rparr>) x
          = Inr p)"
  using assms file_prefix_nonempty [OF assms(1)]
  by (simp add: normalizeFileManagerResult_def Let_def)

theorem normalize_only_pathname_witness:
  "startsWith (trim ''file://server/share/x.txt?rev=2#top'') ''file://''
   \<and> URL_new (sample_platform []) ''file://server/share/x.txt?rev=2#top''
       = Inr \<lparr>hostname = ''server'', pathname = ''/share/x.txt'', search = ''?rev=2'', hash = ''#top''\<rparr>
   \<and> normalizeFileManagerResult (sample_platform []) ''file://server/share/x.txt?rev=2#top''
       = Inr ''/share/x.txt''
   \<and> normalizeFileManagerResult (sample_platform []) ''file://server/share/x.txt''
       = Inr ''/share/x.txt''"
proof -
  let ?pf = "sample_platform []"
  let ?x = "''file://server/share/x.txt?rev=2#top''"
  let ?y = "''file://server/share/x.txt''"
  have tx: "trim ?x = ?x" by code_simp
  have sx: "startsWith (trim ?x) ''file://''" by code_simp
  have ux: "URL_new ?pf (trim ?x)
      = Inr \<lparr>hostname = ''server'', pathname = ''/share/x.txt'', search = ''?rev=2'', hash = ''#top''\<rparr>"
    by code_simp
  have d: "decodeURIComponent ?pf
             (pathname \<lparr>hostname = ''server'', pathname = ''/share/x.txt'', search = ''?rev=2'', hash = ''#top''\<rparr>)
           = Inr ''/share/x.txt''"
    by code_simp
  have rx: "normalizeFileManagerResult ?pf ?x = Inr ''/share/x.txt''"
    using normalize_only_pathname [OF sx ux d] by blast
  have sy: "startsWith (trim ?y) ''file://''" by code_simp
  have uy: "URL_new ?pf (trim ?y)
      = Inr \<lparr>hostname = ''server'', pathname = ''/share/x.txt'', search = [], hash = []\<rparr>"
    by code_simp
  have dy: "decodeURIComponent ?pf
             (pathname \<lparr>hostname = ''server'', pathname = ''/share/x.txt'', search = [], hash = []\<rparr>)
           = Inr ''/share/x.txt''"
    by code_simp
  have ry: "normalizeFileManagerResult ?pf ?y = Inr ''/share/x.txt''"
    using normalize_only_pathname [OF sy uy dy] by blast
  show ?thesis using sx ux rx ry tx by simp
qed


section \<open>Properties of the cloud path mapper\<close>

lemma find_append:
  "List.find P (xs @ ys) = (case List.find P xs of None \<Rightarrow> List.find P ys | Some x \<Rightarrow> Some x)"
  by (induction xs) auto

lemma tryCandidates_find: "tryCandidates pf cs = List.find (isRegularFile pf) cs"
  by (induction cs) (auto simp: isRegularFile_def split: sum.splits)

lemma tryVariants_find:
  "tryVariants pf root vs = List.find (isRegularFile pf) (candidatePaths pf [root] vs)"
proof (induction vs)
  case Nil
  then show ?case by (simp add: candidatePaths_def)
next
  case (Cons v vs)
  have "candidatePaths pf [root] (v # vs)
          = [join pf (root # ''Documents'' # v), join pf (root # v)] @ candidatePaths pf [root] vs"
    by (simp add: candidatePaths_def)
  then show ?case
    using Cons.IH
    by (simp only: tryVariants.simps Let_def tryCandidates_find find_append split: option.splits)
qed

lemma tryRoots_find:
  "tryRoots pf roots vs = List.find (isRegularFile pf) (candidatePaths pf roots vs)"
proof (induction roots)
  case Nil
  then show ?case by (simp add: candidatePaths_def)
next
  case (Cons root roots)
  have "candidatePaths pf (root # roots) vs
          = candidatePaths pf [root] vs @ candidatePaths pf roots vs"
    by (simp add: candidatePaths_def)
  then show ?case
    using Cons.IH
    by (simp add: tryVariants_find find_append split: option.splits)
qed

lemma mapSharePoint_Inr: "\<exists>m. mapSharePointUrlToLocalPath pf urlValue = Inr m"
  by (simp add: mapSharePointUrlToLocalPath_def Let_def split: sum.splits)

text \<open>
  Claim C3. The three nested loops return the first path, in the order of
  \<open>candidatePaths\<close> (roots outermost, variants innermost, the path under
  \<open>Documents\<close> before the path under the root), that exists as a regular file; a check
  that fails counts as a path that is absent. The mapper never raises: with the product
  exhausted it returns \<open>null\<close>. For a URL that parses, whose host is recognised and whose
  path has a \<open>documents\<close> segment, the result is exactly that first regular file among
  the candidates of the discovered roots and the variants.
\<close>

theorem mapper_first_regular_file:
  "tryRoots pf roots variants = List.find (isRegularFile pf) (candidatePaths pf roots variants)
   \<and> (\<forall>e. stat pf candidate = Inl e \<longrightarrow> \<not> isRegularFile pf candidate)
   \<and> (\<exists>m. mapSharePointUrlToLocalPath pf urlValue = Inr m)
   \<and> (\<forall>parsed. URL_new pf urlValue = Inr parsed
         \<and> str_includes (hostname parsed) ''sharepoint.com''
         \<and> findIndex (\<lambda>segment. toLowerCase segment = ''documents'') (urlSegments pf parsed) \<noteq> - 1
        \<longrightarrow> mapSharePointUrlToLocalPath pf urlValue =
              Inr (List.find (isRegularFile pf)
                     (candidatePaths pf (getOneDriveRoots pf)
                        (relativeVariants
                           (relativeSegmentsOf (urlSegments pf parsed)
                              (findIndex (\<lambda>segment. toLowerCase segment = ''documents'')
                                 (urlSegments pf parsed)))))))"
  by (simp add: tryRoots_find mapSharePoint_Inr isRegularFile_def)
     (simp add: mapSharePointUrlToLocalPath_def Let_def tryRoots_find)

theorem mapper_first_regular_file_witness:
  "URL_new (sample_platform [])
       ''https://contoso.sharepoint.com/sites/Team/Documents/Quarterly%20Report2024.03.15.docx''
     = Inr \<lparr>hostname = ''contoso.sharepoint.com'',
            pathname = ''/sites/Team/Documents/Quarterly%20Report2024.03.15.docx'',
            search = [], hash = []\<rparr>
   \<and> mapSharePointUrlToLocalPath (sample_platform [])
       ''https://contoso.sharepoint.com/sites/Team/Documents/Quarterly%20Report2024.03.15.docx''
     = Inr (List.find (isRegularFile (sample_platform []))
         [''/Users/me/Library/CloudStorage/OneDrive-Contoso/Documents/Quarterly Report2024.03.15.docx'',
          ''/Users/me/Library/CloudStorage/OneDrive-Contoso/Quarterly Report2024.03.15.docx'',
          ''/Users/me/Library/CloudStorage/OneDrive-Contoso/Documents/Quarterly Report/2024.03.15.docx'',
          ''/Users/me/Library/CloudStorage/OneDrive-Contoso/Quarterly Report/2024.03.15.docx''])
   \<and> mapSharePointUrlToLocalPath (sample_platform [])
       ''https://contoso.sharepoint.com/sites/Team/Documents/Quarterly%20Report2024.03.15.docx''
     = Inr (Some ''/Users/me/Library/CloudStorage/OneDrive-Contoso/Quarterly Report/2024.03.15.docx'')"
proof -
  let ?pf = "sample_platform []"
  let ?url = "''https://contoso.sharepoint.com/sites/Team/Documents/Quarterly%20Report2024.03.15.docx''"
  let ?u = "\<lparr>hostname = ''contoso.sharepoint.com'',
            pathname = ''/sites/Team/Documents/Quarterly%20Report2024.03.15.docx'',
            search = [], hash = []\<rparr>"
  let ?segs = "[''sites'', ''Team'', ''Documents'', ''Quarterly Report2024.03.15.docx'']"
  have u: "URL_new ?pf ?url = Inr ?u" by code_simp
  have h: "str_includes (hostname ?u) ''sharepoint.com''" by code_simp
  have segs: "urlSegments ?pf ?u = ?segs" by code_simp
  have ix: "findIndex (\<lambda>segment. toLowerCase segment = ''documents'') ?segs = 2" by code_simp
  have rel: "relativeSegmentsOf ?segs 2 = [''Quarterly Report2024.03.15.docx'']" by code_simp
  have vars: "relativeVariants [''Quarterly Report2024.03.15.docx'']
                = [[''Quarterly Report2024.03.15.docx''], [''Quarterly Report'', ''2024.03.15.docx'']]"
    by code_simp
  have roots: "getOneDriveRoots ?pf = [''/Users/me/Library/CloudStorage/OneDrive-Contoso'']"
    by code_simp
  have cands: "candidatePaths ?pf [''/Users/me/Library/CloudStorage/OneDrive-Contoso'']
                 [[''Quarterly Report2024.03.15.docx''], [''Quarterly Report'', ''2024.03.15.docx'']]
     = [''/Users/me/Library/CloudStorage/OneDrive-Contoso/Documents/Quarterly Report2024.03.15.docx'',
          ''/Users/me/Library/CloudStorage/OneDrive-Contoso/Quarterly Report2024.03.15.docx'',
          ''/Users/me/Library/CloudStorage/OneDrive-Contoso/Documents/Quarterly Report/2024.03.15.docx'',
          ''/Users/me/Library/CloudStorage/OneDrive-Contoso/Quarterly Report/2024.03.15.docx'']"
    by code_simp
  have found: "List.find (isRegularFile ?pf)
         [''/Users/me/Library/CloudStorage/OneDrive-Contoso/Documents/Quarterly Report2024.03.15.docx'',
          ''/Users/me/Library/CloudStorage/OneDrive-Contoso/Quarterly Report2024.03.15.docx'',
          ''/Users/me/Library/CloudStorage/OneDrive-Contoso/Documents/Quarterly Report/2024.03.15.docx'',
          ''/Users/me/Library/CloudStorage/OneDrive-Contoso/Quarterly Report/2024.03.15.docx'']
      = Some ''/Users/me/Library/CloudStorage/OneDrive-Contoso/Quarterly Report/2024.03.15.docx''"
    by code_simp
  have "mapSharePointUrlToLocalPath ?pf ?url
     = Inr (List.find (isRegularFile ?pf)
              (candidatePaths ?pf (getOneDriveRoots ?pf)
                 (relativeVariants
                    (relativeSegmentsOf (urlSegments ?pf ?u)
                       (findIndex (\<lambda>segment. toLowerCase segment = ''documents'')
                          (urlSegments ?pf ?u))))))"
    using mapper_first_regular_file [of ?pf "[]" "[]" "[]" ?url] u h segs ix by simp
  then have "mapSharePointUrlToLocalPath ?pf ?url
     = Inr (List.find (isRegularFile ?pf)
         [''/Users/me/Library/CloudStorage/OneDrive-Contoso/Documents/Quarterly Report2024.03.15.docx'',
          ''/Users/me/Library/CloudStorage/OneDrive-Contoso/Quarterly Report2024.03.15.docx'',
          ''/Users/me/Library/CloudStorage/OneDrive-Contoso/Documents/Quarterly Report/2024.03.15.docx'',
          ''/Users/me/Library/CloudStorage/OneDrive-Contoso/Quarterly Report/2024.03.15.docx''])"
    by (simp only: segs ix rel vars roots cands)
  then show ?thesis using u found by simp
qed

lemma match_index_None: "match_index at s = None \<longleftrightarrow> (\<forall>j. \<not> matchesAt at s j)"
proof (induction s)
  case Nil
  then show ?case by (simp add: matchesAt_def)
next
  case (Cons c cs)
  have step: "(\<forall>j. \<not> matchesAt at (c # cs) j) \<longleftrightarrow> \<not> at (c # cs) \<and> (\<forall>j. \<not> matchesAt at cs j)"
  proof
    assume a: "\<forall>j. \<not> matchesAt at (c # cs) j"
    have "\<not> at (c # cs)" using a [rule_format, of 0] by (simp add: matchesAt_def)
    moreover have "\<not> matchesAt at cs j" for j
      using a [rule_format, of "Suc j"] by (simp add: matchesAt_def)
    ultimately show "\<not> at (c # cs) \<and> (\<forall>j. \<not> matchesAt at cs j)" by blast
  next
    assume b: "\<not> at (c # cs) \<and> (\<forall>j. \<not> matchesAt at cs j)"
    show "\<forall>j. \<not> matchesAt at (c # cs) j"
    proof
      fix j
      show "\<not> matchesAt at (c # cs) j"
        using b by (cases j) (simp_all add: matchesAt_def)
    qed
  qed
  show ?case using Cons.IH by (simp add: step)
qed

lemma match_index_Some:
  "match_index at s = Some i \<longleftrightarrow> matchesAt at s i \<and> (\<forall>j<i. \<not> matchesAt at s j)"
proof (induction s arbitrary: i)
  case Nil
  then show ?case by (simp add: matchesAt_def)
next
  case (Cons c cs)
  show ?case
  proof (cases "at (c # cs)")
    case True
    have "matchesAt at (c # cs) i \<and> (\<forall>j<i. \<not> matchesAt at (c # cs) j) \<longleftrightarrow> i = 0"
    proof
      assume a: "matchesAt at (c # cs) i \<and> (\<forall>j<i. \<not> matchesAt at (c # cs) j)"
      show "i = 0"
      proof (rule ccontr)
        assume "i \<noteq> 0"
        then have "\<not> matchesAt at (c # cs) 0" using a by simp
        then show False using True by (simp add: matchesAt_def)
      qed
    next
      assume "i = 0"
      then show "matchesAt at (c # cs) i \<and> (\<forall>j<i. \<not> matchesAt at (c # cs) j)"
        using True by (simp add: matchesAt_def)
    qed
    then show ?thesis using True by auto
  next
    case False
    show ?thesis
    proof (cases i)
      case 0
      then show ?thesis using False by (simp add: matchesAt_def)
    next
      case (Suc k)
      have a: "matchesAt at (c # cs) (Suc k) = matchesAt at cs k" by (simp add: matchesAt_def)
      have b: "(\<forall>j<Suc k. \<not> matchesAt at (c # cs) j) \<longleftrightarrow> (\<forall>j<k. \<not> matchesAt at cs j)"
      proof
        assume h: "\<forall>j<Suc k. \<not> matchesAt at (c # cs) j"
        show "\<forall>j<k. \<not> matchesAt at cs j"
        proof (intro allI impI)
          fix j assume "j < k"
          then have "\<not> matchesAt at (c # cs) (Suc j)" using h by simp
          then show "\<not> matchesAt at cs j" by (simp add: matchesAt_def)
        qed
      next
        assume h: "\<forall>j<k. \<not> matchesAt at cs j"
        show "\<forall>j<Suc k. \<not> matchesAt at (c # cs) j"
        proof (intro allI impI)
          fix j assume jk: "j < Suc k"
          show "\<not> matchesAt at (c # cs) j"
            using False h jk by (cases j) (simp_all add: matchesAt_def)
        qed
      qed
      show ?thesis using False Suc Cons.IH [of k] by (auto simp: a b)
    qed
  qed
qed

text \<open>
  Claim C4. \<open>relativeVariants\<close> holds the sequence as it is and at most one more
  variant. A second variant exists only when the last segment has, at a position \<open>i\<close>
  after its start, a date \<open>dddd.dd.dd\<close> or, with no date anywhere in it, a digit, and the
  trimmed text before \<open>i\<close> and the trimmed text from \<open>i\<close> on are both non-empty; it
  replaces the last segment by these two parts. The position is that of the leftmost
  match: whenever the leftmost date (or, with no date, the leftmost digit) is after the
  start and both parts are non-empty, the second variant is built.
\<close>

theorem relativeVariants_one_or_two:
  "(relativeVariants rel = [rel]
    \<or> (\<exists>i. rel \<noteq> [] \<and> 0 < i
          \<and> (matchesAt dateAt (last rel) i
              \<or> (\<forall>j. \<not> matchesAt dateAt (last rel) j) \<and> matchesAt digitAt (last rel) i)
          \<and> trim (take i (last rel)) \<noteq> [] \<and> trim (drop i (last rel)) \<noteq> []
          \<and> relativeVariants rel
              = [rel, butlast rel @ [trim (take i (last rel)), trim (drop i (last rel))]]))
   \<and> (\<forall>i. rel \<noteq> [] \<and> 0 < i
          \<and> (matchesAt dateAt (last rel) i \<and> (\<forall>j<i. \<not> matchesAt dateAt (last rel) j)
              \<or> (\<forall>j. \<not> matchesAt dateAt (last rel) j)
                 \<and> matchesAt digitAt (last rel) i \<and> (\<forall>j<i. \<not> matchesAt digitAt (last rel) j))
          \<and> trim (take i (last rel)) \<noteq> [] \<and> trim (drop i (last rel)) \<noteq> []
        \<longrightarrow> relativeVariants rel
              = [rel, butlast rel @ [trim (take i (last rel)), trim (drop i (last rel))]])"
proof (cases "rel = [] \<or> last rel = []")
  case True
  then have one: "relativeVariants rel = [rel]" by (auto simp: relativeVariants_def)
  have "\<not> matchesAt at (last rel) i" if "rel \<noteq> []" for at i
    using True that by (simp add: matchesAt_def)
  then show ?thesis using one by blast
next
  case False
  define l where "l = last rel"
  have l_ne: "l \<noteq> []" and rel_ne: "rel \<noteq> []" using False by (simp_all add: l_def)
  define sv where "sv i = butlast rel @ [trim (take i l), trim (drop i l)]" for i
  have unfold: "relativeVariants rel =
      [rel] @ (case match_index dateAt l of
                 Some i \<Rightarrow> if 0 < i then splitVariant rel l i else []
               | None \<Rightarrow> [])
            @ (if match_index dateAt l = None then
                 (case match_index digitAt l of
                    Some i \<Rightarrow> if 0 < i then splitVariant rel l i else []
                  | None \<Rightarrow> [])
               else [])"
    using l_ne rel_ne by (auto simp: relativeVariants_def l_def Let_def split: option.splits)
  have sv_eq: "splitVariant rel l i =
      (if trim (take i l) \<noteq> [] \<and> trim (drop i l) \<noteq> [] then [sv i] else [])" for i
    by (simp add: splitVariant_def sv_def Let_def)
  show ?thesis
  proof (cases "match_index dateAt l")
    case (Some i)
    then have m: "matchesAt dateAt l i" "\<forall>j<i. \<not> matchesAt dateAt l j"
      by (simp_all add: match_index_Some)
    have leftmost: "k = i" if "matchesAt dateAt l k" "\<forall>j<k. \<not> matchesAt dateAt l j" for k
      using that m by (meson linorder_neqE_nat)
    have rv: "relativeVariants rel =
        (if 0 < i \<and> trim (take i l) \<noteq> [] \<and> trim (drop i l) \<noteq> [] then [rel, sv i] else [rel])"
      using Some by (simp add: unfold sv_eq)
    have first: "relativeVariants rel = [rel]
       \<or> (\<exists>i. rel \<noteq> [] \<and> 0 < i
          \<and> (matchesAt dateAt l i \<or> (\<forall>j. \<not> matchesAt dateAt l j) \<and> matchesAt digitAt l i)
          \<and> trim (take i l) \<noteq> [] \<and> trim (drop i l) \<noteq> []
          \<and> relativeVariants rel = [rel, sv i])"
      using rv m(1) rel_ne by (cases "0 < i \<and> trim (take i l) \<noteq> [] \<and> trim (drop i l) \<noteq> []") auto
    have second: "relativeVariants rel = [rel, sv k]"
      if "0 < k" "matchesAt dateAt l k \<and> (\<forall>j<k. \<not> matchesAt dateAt l j)
              \<or> (\<forall>j. \<not> matchesAt dateAt l j)
                 \<and> matchesAt digitAt l k \<and> (\<forall>j<k. \<not> matchesAt digitAt l j)"
         "trim (take k l) \<noteq> []" "trim (drop k l) \<noteq> []" for k
    proof -
      have "k = i" using that(2) m(1) leftmost by blast
      then show ?thesis using rv that by simp
    qed
    show ?thesis using first second unfolding l_def sv_def by blast
  next
    case None
    then have nodate: "\<forall>j. \<not> matchesAt dateAt l j" by (simp add: match_index_None)
    show ?thesis
    proof (cases "match_index digitAt l")
      case None2: None
      then have nodigit: "\<forall>j. \<not> matchesAt digitAt l j" by (simp add: match_index_None)
      have rv: "relativeVariants rel = [rel]" using None None2 by (simp add: unfold)
      show ?thesis using rv nodate nodigit unfolding l_def by blast
    next
      case (Some i)
      then have m: "matchesAt digitAt l i" "\<forall>j<i. \<not> matchesAt digitAt l j"
        by (simp_all add: match_index_Some)
      have leftmost: "k = i" if "matchesAt digitAt l k" "\<forall>j<k. \<not> matchesAt digitAt l j" for k
        using that m by (meson linorder_neqE_nat)
      have rv: "relativeVariants rel =
          (if 0 < i \<and> trim (take i l) \<noteq> [] \<and> trim (drop i l) \<noteq> [] then [rel, sv i] else [rel])"
        using Some None by (simp add: unfold sv_eq)
      have first: "relativeVariants rel = [rel]
         \<or> (\<exists>i. rel \<noteq> [] \<and> 0 < i
            \<and> (matchesAt dateAt l i \<or> (\<forall>j. \<not> matchesAt dateAt l j) \<and> matchesAt digitAt l i)
            \<and> trim (take i l) \<noteq> [] \<and> trim (drop i l) \<noteq> []
            \<and> relativeVariants rel = [rel, sv i])"
        using rv m(1) nodate rel_ne
        by (cases "0 < i \<and> trim (take i l) \<noteq> [] \<and> trim (drop i l) \<noteq> []") auto
      have second: "relativeVariants rel = [rel, sv k]"
        if "0 < k" "matchesAt dateAt l k \<and> (\<forall>j<k. \<not> matchesAt dateAt l j)
                \<or> (\<forall>j. \<not> matchesAt dateAt l j)
                   \<and> matchesAt digitAt l k \<and> (\<forall>j<k. \<not> matchesAt digitAt l j)"
           "trim (take k l) \<noteq> []" "trim (drop k l) \<noteq> []" for k
      proof -
        have "k = i" using that(2) nodate leftmost by blast
        then show ?thesis using rv that by simp
      qed
      show ?thesis using first second unfolding l_def sv_def by blast
    qed
  qed
qed

theorem relativeVariants_one_or_two_witness:
  "matchesAt dateAt ''Quarterly Report2024.03.15.docx'' 16
   \<and> trim (take 16 ''Quarterly Report2024.03.15.docx'') = ''Quarterly Report''
   \<and> trim (drop 16 ''Quarterly Report2024.03.15.docx'') = ''2024.03.15.docx''
   \<and> relativeVariants [''Reports'', ''Quarterly Report2024.03.15.docx'']
       = [[''Reports'', ''Quarterly Report2024.03.15.docx''],
          [''Reports'', ''Quarterly Report'', ''2024.03.15.docx'']]"
proof -
  let ?l = "''Quarterly Report2024.03.15.docx''"
  let ?rel = "[''Reports'', ?l]"
  have mi: "match_index dateAt ?l = Some 16" by code_simp
  have m: "matchesAt dateAt ?l 16 \<and> (\<forall>j<16. \<not> matchesAt dateAt ?l j)"
    using mi match_index_Some [of dateAt ?l 16] by blast
  have f: "trim (take 16 ?l) = ''Quarterly Report''" by code_simp
  have g: "trim (drop 16 ?l) = ''2024.03.15.docx''" by code_simp
  have ne: "?rel \<noteq> []" "(0::nat) < 16" "last ?rel = ?l" "butlast ?rel = [''Reports'']" by simp_all
  have "relativeVariants ?rel
          = [?rel, butlast ?rel @ [trim (take 16 (last ?rel)), trim (drop 16 (last ?rel))]]"
    using relativeVariants_one_or_two [of ?rel, THEN conjunct2, rule_format, of 16] m f g ne
    by simp
  then show ?thesis using m f g by simp
qed

lemma findIndex_none: "findIndex P xs = - 1 \<longleftrightarrow> (\<forall>x\<in>set xs. \<not> P x)"
proof (induction xs)
  case Nil
  then show ?case by simp
next
  case (Cons x xs)
  have ge: "- 1 \<le> findIndex P ys" for ys
    by (induction ys) (auto simp: Let_def)
  have "findIndex P xs + 1 \<noteq> - 1" using ge [of xs] by arith
  then show ?case using Cons.IH by (auto simp: Let_def)
qed

lemma getOneDriveRoots_unreadable:
  "readdir pf (join pf [homedir pf, ''Library'', ''CloudStorage'']) = Inl e
     \<Longrightarrow> getOneDriveRoots pf = []"
  by (simp add: getOneDriveRoots_def)

lemma mapper_no_roots:
  "getOneDriveRoots pf = [] \<Longrightarrow> mapSharePointUrlToLocalPath pf urlValue = Inr None"
  by (simp add: mapSharePointUrlToLocalPath_def Let_def split: sum.splits)

text \<open>
  Claim C5. The mapper returns \<open>null\<close>, and no error, when the input does not parse
  as a URL, when the host name does not contain \<open>sharepoint.com\<close>, when no decoded
  segment of the path is \<open>documents\<close> in lower case, and when the directory
  \<open>~/Library/CloudStorage\<close> cannot be listed, which leaves no sync root.
\<close>

theorem mapper_declines:
  "((\<exists>e. URL_new pf urlValue = Inl e) \<longrightarrow> mapSharePointUrlToLocalPath pf urlValue = Inr None)
   \<and> (\<forall>parsed. URL_new pf urlValue = Inr parsed
          \<and> \<not> str_includes (hostname parsed) ''sharepoint.com''
        \<longrightarrow> mapSharePointUrlToLocalPath pf urlValue = Inr None)
   \<and> (\<forall>parsed. URL_new pf urlValue = Inr parsed
          \<and> (\<forall>segment \<in> set (urlSegments pf parsed). toLowerCase segment \<noteq> ''documents'')
        \<longrightarrow> mapSharePointUrlToLocalPath pf urlValue = Inr None)
   \<and> ((\<exists>e. readdir pf (join pf [homedir pf, ''Library'', ''CloudStorage'']) = Inl e)
        \<longrightarrow> getOneDriveRoots pf = [] \<and> mapSharePointUrlToLocalPath pf urlValue = Inr None)"
proof (intro conjI allI impI)
  assume "\<exists>e. URL_new pf urlValue = Inl e"
  then show "mapSharePointUrlToLocalPath pf urlValue = Inr None"
    by (auto simp: mapSharePointUrlToLocalPath_def)
next
  fix parsed
  assume "URL_new pf urlValue = Inr parsed \<and> \<not> str_includes (hostname parsed) ''sharepoint.com''"
  then show "mapSharePointUrlToLocalPath pf urlValue = Inr None"
    by (simp add: mapSharePointUrlToLocalPath_def)
next
  fix parsed
  assume a: "URL_new pf urlValue = Inr parsed
     \<and> (\<forall>segment \<in> set (urlSegments pf parsed). toLowerCase segment \<noteq> ''documents'')"
  then have "findIndex (\<lambda>segment. toLowerCase segment = ''documents'') (urlSegments pf parsed) = - 1"
    by (simp add: findIndex_none)
  then show "mapSharePointUrlToLocalPath pf urlValue = Inr None"
    using a by (simp add: mapSharePointUrlToLocalPath_def Let_def)
next
  assume "\<exists>e. readdir pf (join pf [homedir pf, ''Library'', ''CloudStorage'']) = Inl e"
  then show "getOneDriveRoots pf = []"
    using getOneDriveRoots_unreadable by blast
next
  assume "\<exists>e. readdir pf (join pf [homedir pf, ''Library'', ''CloudStorage'']) = Inl e"
  then have "getOneDriveRoots pf = []"
    using getOneDriveRoots_unreadable by blast
  then show "mapSharePointUrlToLocalPath pf urlValue = Inr None"
    by (rule mapper_no_roots)
qed

theorem mapper_declines_witness:
  "URL_new (sample_platform []) ''not a url'' = Inl (TypeError ''Invalid URL'')
   \<and> mapSharePointUrlToLocalPath (sample_platform []) ''not a url'' = Inr None
   \<and> mapSharePointUrlToLocalPath (sample_platform [])
        ''https://example.com/sites/Team/Documents/Reports/Q1.docx'' = Inr None
   \<and> mapSharePointUrlToLocalPath (sample_platform [])
        ''https://contoso.sharepoint.com/sites/Team/Reports/Q1.docx'' = Inr None
   \<and> readdir (sample_platform [] \<lparr>homedir := ''/Users/nobody''\<rparr>)
        ''/Users/nobody/Library/CloudStorage'' = Inl (SystemError ''ENOENT'')
   \<and> mapSharePointUrlToLocalPath (sample_platform [] \<lparr>homedir := ''/Users/nobody''\<rparr>)
        ''https://contoso.sharepoint.com/sites/Team/Documents/Quarterly%20Report2024.03.15.docx''
       = Inr None"
proof -
  let ?pf = "sample_platform []"
  let ?pf' = "sample_platform [] \<lparr>homedir := ''/Users/nobody''\<rparr>"
  have a: "URL_new ?pf ''not a url'' = Inl (TypeError ''Invalid URL'')" by code_simp
  have ra: "mapSharePointUrlToLocalPath ?pf ''not a url'' = Inr None"
    using mapper_declines [of ?pf "''not a url''"] a by simp
  have b: "URL_new ?pf ''https://example.com/sites/Team/Documents/Reports/Q1.docx''
      = Inr \<lparr>hostname = ''example.com'', pathname = ''/sites/Team/Documents/Reports/Q1.docx'',
             search = [], hash = []\<rparr>" by code_simp
  have b': "\<not> str_includes ''example.com'' ''sharepoint.com''" by code_simp
  have rb: "mapSharePointUrlToLocalPath ?pf
        ''https://example.com/sites/Team/Documents/Reports/Q1.docx'' = Inr None"
    using mapper_declines [of ?pf "''https://example.com/sites/Team/Documents/Reports/Q1.docx''"]
      b b' by simp
  have c: "URL_new ?pf ''https://contoso.sharepoint.com/sites/Team/Reports/Q1.docx''
      = Inr \<lparr>hostname = ''contoso.sharepoint.com'', pathname = ''/sites/Team/Reports/Q1.docx'',
             search = [], hash = []\<rparr>" by code_simp
  have c': "urlSegments ?pf \<lparr>hostname = ''contoso.sharepoint.com'',
             pathname = ''/sites/Team/Reports/Q1.docx'', search = [], hash = []\<rparr>
      = [''sites'', ''Team'', ''Reports'', ''Q1.docx'']" by code_simp
  have c'': "\<forall>segment \<in> set [''sites'', ''Team'', ''Reports'', ''Q1.docx''].
                toLowerCase segment \<noteq> ''documents''" by code_simp
  have rc: "mapSharePointUrlToLocalPath ?pf
        ''https://contoso.sharepoint.com/sites/Team/Reports/Q1.docx'' = Inr None"
    using mapper_declines [of ?pf "''https://contoso.sharepoint.com/sites/Team/Reports/Q1.docx''"]
      c c' c'' by simp
  have d0: "join ?pf' [homedir ?pf', ''Library'', ''CloudStorage'']
              = ''/Users/nobody/Library/CloudStorage''" by code_simp
  have d: "readdir ?pf' ''/Users/nobody/Library/CloudStorage'' = Inl (SystemError ''ENOENT'')"
    by code_simp
  have rd: "mapSharePointUrlToLocalPath ?pf'
        ''https://contoso.sharepoint.com/sites/Team/Documents/Quarterly%20Report2024.03.15.docx''
       = Inr None"
    using mapper_declines [of ?pf'
        "''https://contoso.sharepoint.com/sites/Team/Documents/Quarterly%20Report2024.03.15.docx''"]
      d0 d by simp
  show ?thesis using a ra rb rc d rd by simp
qed


section \<open>Properties of the resolution orchestrator\<close>

text \<open>
  Claim C6. \<open>resolveOpenPath\<close> returns the containing directory of a path that is an
  existing regular file, and the path itself when it is a directory (or anything else that
  is no regular file) or when the check fails. It never raises. The empty path, which names
  no file, is returned as it is without a check.
\<close>

theorem resolveOpenPath_cases:
  "(pathValue \<noteq> [] \<and> stat pf pathValue = Inr RegularFile
      \<longrightarrow> resolveOpenPath pf pathValue = Inr (dirname pf pathValue))
   \<and> (stat pf pathValue = Inr Directory \<longrightarrow> resolveOpenPath pf pathValue = Inr pathValue)
   \<and> ((\<exists>e. stat pf pathValue = Inl e) \<longrightarrow> resolveOpenPath pf pathValue = Inr pathValue)
   \<and> (\<forall>st. stat pf pathValue = Inr st \<and> st \<noteq> RegularFile
         \<longrightarrow> resolveOpenPath pf pathValue = Inr pathValue)
   \<and> resolveOpenPath pf [] = Inr []
   \<and> (\<exists>p. resolveOpenPath pf pathValue = Inr p)"
  by (auto simp: resolveOpenPath_def isFile_def split: sum.splits)

theorem resolveOpenPath_cases_witness:
  "stat (sample_platform [])
       ''/Users/me/Library/CloudStorage/OneDrive-Contoso/Quarterly Report/2024.03.15.docx''
     = Inr RegularFile
   \<and> resolveOpenPath (sample_platform [])
       ''/Users/me/Library/CloudStorage/OneDrive-Contoso/Quarterly Report/2024.03.15.docx''
     = Inr ''/Users/me/Library/CloudStorage/OneDrive-Contoso/Quarterly Report''
   \<and> stat (sample_platform []) ''/Users/me/Library/CloudStorage/OneDrive-Contoso'' = Inr Directory
   \<and> resolveOpenPath (sample_platform []) ''/Users/me/Library/CloudStorage/OneDrive-Contoso''
     = Inr ''/Users/me/Library/CloudStorage/OneDrive-Contoso''
   \<and> stat (sample_platform []) ''/nowhere/x.txt'' = Inl (SystemError ''ENOENT'')
   \<and> resolveOpenPath (sample_platform []) ''/nowhere/x.txt'' = Inr ''/nowhere/x.txt''"
proof -
  let ?pf = "sample_platform []"
  let ?f = "''/Users/me/Library/CloudStorage/OneDrive-Contoso/Quarterly Report/2024.03.15.docx''"
  let ?d = "''/Users/me/Library/CloudStorage/OneDrive-Contoso''"
  have a: "stat ?pf ?f = Inr RegularFile" by code_simp
  have a': "dirname ?pf ?f = ''/Users/me/Library/CloudStorage/OneDrive-Contoso/Quarterly Report''"
    by code_simp
  have ra: "resolveOpenPath ?pf ?f = Inr (dirname ?pf ?f)"
    using resolveOpenPath_cases [of ?f ?pf] a by simp
  have b: "stat ?pf ?d = Inr Directory" by code_simp
  have rb: "resolveOpenPath ?pf ?d = Inr ?d"
    using resolveOpenPath_cases [of ?d ?pf] b by simp
  have c: "stat ?pf ''/nowhere/x.txt'' = Inl (SystemError ''ENOENT'')" by code_simp
  have rc: "resolveOpenPath ?pf ''/nowhere/x.txt'' = Inr ''/nowhere/x.txt''"
    using resolveOpenPath_cases [of "''/nowhere/x.txt''" ?pf] c by simp
  show ?thesis using a a' ra b rb c rc by simp
qed

text \<open>
  Claim C1, as stated, fails: the classification lower-cases the path first, so
  \<open>HTTP://x\<close>, which neither starts with \<open>http://\<close> or \<open>https://\<close> nor contains
  \<open>http:\<close> or \<open>https:\<close>, is URL-shaped, and its resolved path is the empty string
  of a mapping without a match.
\<close>

theorem url_shape_ignores_case:
  "isProbablyUrlPath ''HTTP://x''
   \<and> \<not> (startsWith ''HTTP://x'' ''http://'' \<or> startsWith ''HTTP://x'' ''https://''
        \<or> str_includes ''HTTP://x'' ''http:'' \<or> str_includes ''HTTP://x'' ''https:'')
   \<and> fst (resolveDocumentAppPathForOpen (sample_platform ''HTTP://x'') Map.empty ''Microsoft Word'')
       = Inr \<lparr>documentPath = ''HTTP://x'', resolvedPath = []\<rparr>"
  by code_simp

text \<open>
  Claim C1, amended. For a document application whose script output normalizes to a
  non-empty path \<open>p\<close>, the path is URL-shaped exactly when its lower-cased form starts
  with \<open>http://\<close> or \<open>https://\<close> or contains \<open>http:\<close> or \<open>https:\<close>. The
  mapper never raises, and the result holds both values: \<open>documentPath\<close> is \<open>p\<close>, and
  \<open>resolvedPath\<close> is the mapped local path, or the empty string without a match, when
  \<open>p\<close> is URL-shaped, and \<open>p\<close> itself otherwise.
\<close>

theorem resolveDocumentAppPathForOpen_result:
  assumes "buildDocumentPathScript app = Some script"
    and "runAppleScript pf penv script = (Inr raw, penv')"
    and "normalizeFileManagerResult pf raw = Inr p"
    and "p \<noteq> []"
  shows "(isProbablyUrlPath p \<longleftrightarrow>
            startsWith (toLowerCase p) ''http://'' \<or> startsWith (toLowerCase p) ''https://''
            \<or> str_includes (toLowerCase p) ''http:'' \<or> str_includes (toLowerCase p) ''https:'')
     \<and> (\<exists>m. mapSharePointUrlToLocalPath pf p = Inr m)
     \<and> fst (resolveDocumentAppPathForOpen pf penv app)
         = Inr \<lparr>documentPath = p,
                resolvedPath =
                  (if isProbablyUrlPath p
                   then (case mapSharePointUrlToLocalPath pf p of
                           Inr (Some localPath) \<Rightarrow> localPath
                         | _ \<Rightarrow> [])
                   else p)\<rparr>"
proof (intro conjI)
  show "isProbablyUrlPath p \<longleftrightarrow>
            startsWith (toLowerCase p) ''http://'' \<or> startsWith (toLowerCase p) ''https://''
            \<or> str_includes (toLowerCase p) ''http:'' \<or> str_includes (toLowerCase p) ''https:''"
    by (simp add: isProbablyUrlPath_def Let_def)
  show "\<exists>m. mapSharePointUrlToLocalPath pf p = Inr m"
    by (rule mapSharePoint_Inr)
  have g: "getDocumentAppPath pf penv app = (Inr p, penv')"
    using assms by (simp add: getDocumentAppPath_def)
  obtain m where m: "mapSharePointUrlToLocalPath pf p = Inr m"
    using mapSharePoint_Inr by blast
  show "fst (resolveDocumentAppPathForOpen pf penv app)
         = Inr \<lparr>documentPath = p,
                resolvedPath =
                  (if isProbablyUrlPath p
                   then (case mapSharePointUrlToLocalPath pf p of
                           Inr (Some localPath) \<Rightarrow> localPath
                         | _ \<Rightarrow> [])
                   else p)\<rparr>"
    by (cases m) (simp_all add: resolveDocumentAppPathForOpen_def g m)
qed

theorem resolveDocumentAppPathForOpen_result_witness:
  "isProbablyUrlPath ''https://contoso.sharepoint.com/sites/Team/Documents/Reports/Q1.docx''
   \<and> mapSharePointUrlToLocalPath
        (sample_platform (''https://contoso.sharepoint.com/sites/Team/Documents/Reports/Q1.docx'' @ [CHR 0x0A]))
        ''https://contoso.sharepoint.com/sites/Team/Documents/Reports/Q1.docx'' = Inr None
   \<and> fst (resolveDocumentAppPathForOpen
        (sample_platform (''https://contoso.sharepoint.com/sites/Team/Documents/Reports/Q1.docx'' @ [CHR 0x0A]))
        Map.empty ''Microsoft Word'')
       = Inr \<lparr>documentPath = ''https://contoso.sharepoint.com/sites/Team/Documents/Reports/Q1.docx'',
              resolvedPath = []\<rparr>"
proof -
  let ?url = "''https://contoso.sharepoint.com/sites/Team/Documents/Reports/Q1.docx''"
  let ?pf = "sample_platform (?url @ [CHR 0x0A])"
  have b: "buildDocumentPathScript ''Microsoft Word'' = Some script_Microsoft_Word"
    by (simp add: buildDocumentPathScript_def)
  have r: "runAppleScript ?pf Map.empty script_Microsoft_Word
             = (Inr (?url @ [CHR 0x0A]), [''LC_ALL'' \<mapsto> ''undefined''])"
    by (simp add: runAppleScript_def sample_platform_def String_of_def Let_def)
  have n: "normalizeFileManagerResult ?pf (?url @ [CHR 0x0A]) = Inr ?url" by code_simp
  have ne: "?url \<noteq> []" by simp
  have u: "isProbablyUrlPath ?url" by code_simp
  have m: "mapSharePointUrlToLocalPath ?pf ?url = Inr None" by code_simp
  have "fst (resolveDocumentAppPathForOpen ?pf Map.empty ''Microsoft Word'')
         = Inr \<lparr>documentPath = ?url, resolvedPath = []\<rparr>"
    using resolveDocumentAppPathForOpen_result [OF b r n ne] u m by simp
  then show ?thesis using u m by blast
qed


section \<open>Properties of the automation executor\<close>

lemma runAppleScript_env:
  assumes "process_platform pf = ''darwin''"
    and "spawnSync pf ''osascript'' [''-e'', script] (penv(''LC_ALL'' := None)) = Inr r"
  shows "snd (runAppleScript pf penv script) = penv(''LC_ALL'' \<mapsto> String_of (penv ''LC_ALL''))"
  using assms by (simp add: runAppleScript_def Let_def split: option.splits)

lemma runAppleScript_restores_set:
  assumes "process_platform pf = ''darwin''"
    and "spawnSync pf ''osascript'' [''-e'', script] (penv(''LC_ALL'' := None)) = Inr r"
    and "penv ''LC_ALL'' = Some v"
  shows "snd (runAppleScript pf penv script) = penv"
  using assms by (auto simp: runAppleScript_env String_of_def)

text \<open>
  Claim C7 fails on the code. A call on macOS that starts with \<open>LC_ALL\<close> unset ends
  with \<open>LC_ALL\<close> set to the string \<open>undefined\<close>: the restoring assignment
  \<open>process.env.LC_ALL = locale\<close> converts the captured \<open>undefined\<close> to a string. A
  value that was set is restored (\<open>runAppleScript_restores_set\<close>).
\<close>

theorem runAppleScript_unset_LC_ALL:
  "(Map.empty :: env) ''LC_ALL'' = None
   \<and> snd (runAppleScript (sample_platform ''/Users/me'') Map.empty ''return 1'') ''LC_ALL''
       = Some ''undefined''"
  by (simp add: runAppleScript_def sample_platform_def String_of_def Let_def)


section \<open>Properties of the script registry\<close>

text \<open>
  Claim C8, as stated, fails for the terminal family: neither builder has a branch for
  \<open>iTerm\<close>, a member of \<open>TERMINALS\<close>.
\<close>

theorem terminals_have_no_script:
  "''iTerm'' \<in> set TERMINALS
   \<and> buildDocumentPathScript ''iTerm'' = None
   \<and> buildFileManagerPathScript ''iTerm'' = None"
  by code_simp

lemma file_manager_scripts:
  "list_all (\<lambda>a. case buildFileManagerPathScript a of
                    None \<Rightarrow> False
                  | Some s \<Rightarrow> s \<noteq> [] \<and> str_includes s a) FILE_MANAGERS"
  by code_simp

lemma document_scripts:
  "list_all (\<lambda>a. case buildDocumentPathScript a of
                    None \<Rightarrow> False
                  | Some s \<Rightarrow> s \<noteq> [] \<and> str_includes s a) DOCUMENT_APPS"
  by code_simp

text \<open>
  Claim C8, amended. For every file manager \<open>buildFileManagerPathScript\<close>, and for
  every document application \<open>buildDocumentPathScript\<close>, has a branch and returns a
  non-empty script that contains the name of the application.
\<close>

theorem buildScript_total:
  "(\<forall>a \<in> set FILE_MANAGERS.
      \<exists>s. buildFileManagerPathScript a = Some s \<and> s \<noteq> [] \<and> str_includes s a)
   \<and> (\<forall>a \<in> set DOCUMENT_APPS.
      \<exists>s. buildDocumentPathScript a = Some s \<and> s \<noteq> [] \<and> str_includes s a)"
proof
  show "\<forall>a \<in> set FILE_MANAGERS.
      \<exists>s. buildFileManagerPathScript a = Some s \<and> s \<noteq> [] \<and> str_includes s a"
    using file_manager_scripts by (auto simp: list_all_iff split: option.splits)
  show "\<forall>a \<in> set DOCUMENT_APPS.
      \<exists>s. buildDocumentPathScript a = Some s \<and> s \<noteq> [] \<and> str_includes s a"
    using document_scripts by (auto simp: list_all_iff split: option.splits)
qed

theorem buildScript_total_witness:
  "''Finder'' \<in> set FILE_MANAGERS
   \<and> (\<exists>s. buildFileManagerPathScript ''Finder'' = Some s \<and> s \<noteq> [] \<and> str_includes s ''Finder'')
   \<and> ''Microsoft Word'' \<in> set DOCUMENT_APPS
   \<and> (\<exists>s. buildDocumentPathScript ''Microsoft Word'' = Some s \<and> s \<noteq> []
            \<and> str_includes s ''Microsoft Word'')"
proof -
  have a: "''Finder'' \<in> set FILE_MANAGERS" by (simp add: FILE_MANAGERS_def)
  have b: "''Microsoft Word'' \<in> set DOCUMENT_APPS" by (simp add: DOCUMENT_APPS_def)
  show ?thesis using buildScript_total a b by blast
qed

end
